theory Spec2Isabelle
  imports Complex_Main "HOL-Library.Multiset"
begin

section \<open>Tensors\<close>

text \<open>
  The program computes on \<^verbatim>\<open>torch\<close> tensors. A tensor is modelled by its shape, the row-major
  list of its entries and the device it lives on; a tensor of shape \<open>s\<close> has \<open>prod_list s\<close>
  entries. Entries are real numbers: the rounding of 32-bit floats, infinities and NaN are
  outside the model, so every theorem below is about the formulas the code evaluates, read
  over the reals. The library functions \<^verbatim>\<open>log\<close>, \<^verbatim>\<open>exp\<close> and \<^verbatim>\<open>pow\<close> are \<^term>\<open>ln\<close>,
  \<^term>\<open>exp\<close> and \<^term>\<open>(powr)\<close>, which agree with them on positive arguments; \<^verbatim>\<open>lgamma\<close> is
  a parameter of every function that calls it. The device of a tensor is carried along and
  changed by \<^verbatim>\<open>.to\<close>; the error \<^verbatim>\<open>torch\<close> raises on operands of different devices is outside
  the model.
\<close>

type_synonym device = string

record tensor =
  shape :: "nat list"
  vals :: "real list"
  device :: device

text \<open>
  The exceptions the program can raise. \<open>RuntimeError\<close> is what \<^verbatim>\<open>torch\<close> raises on operands
  whose shapes cannot be broadcast together; \<open>OSError\<close> is a failed write of \<^verbatim>\<open>torch.save\<close> or
  \<^verbatim>\<open>plt.savefig\<close>; \<open>KeyError\<close> a missing key of the colour lookup.
\<close>

datatype error =
  AssertionError | UnboundLocalError | TypeError | KeyError | OSError | ValueError | RuntimeError

text \<open>\<^verbatim>\<open>t.to(dev)\<close>: the same entries on another device.\<close>

definition to :: "device \<Rightarrow> tensor \<Rightarrow> tensor" where
  "to dev t = t\<lparr>device := dev\<rparr>"

text \<open>\<^verbatim>\<open>torch.mean\<close> over all entries, and \<^verbatim>\<open>torch.sum\<close>.\<close>

definition mean :: "real list \<Rightarrow> real" where
  "mean xs = sum_list xs / real (length xs)"

subsection \<open>Broadcasting\<close>

text \<open>
  The broadcasting rule of \<^verbatim>\<open>torch\<close>, on shapes written last axis first: axes are paired from
  the last one, two paired sizes must be equal or one of them \<open>1\<close>, the result takes the
  other size, and the axes one shape has more are kept. \<open>None\<close> is the case in which
  \<^verbatim>\<open>torch\<close> raises \<open>RuntimeError\<close>.
\<close>

fun broadcast_dims :: "nat list \<Rightarrow> nat list \<Rightarrow> nat list option" where
  "broadcast_dims [] ys = Some ys"
| "broadcast_dims (x # xs) [] = Some (x # xs)"
| "broadcast_dims (x # xs) (y # ys) =
     (if x = y \<or> y = 1 then map_option ((#) x) (broadcast_dims xs ys)
      else if x = 1 then map_option ((#) y) (broadcast_dims xs ys)
      else None)"

definition broadcast_shapes :: "nat list \<Rightarrow> nat list \<Rightarrow> nat list option" where
  "broadcast_shapes a b = map_option rev (broadcast_dims (rev a) (rev b))"

definition broadcast_shapes3 :: "nat list \<Rightarrow> nat list \<Rightarrow> nat list \<Rightarrow> nat list option" where
  "broadcast_shapes3 a b c =
     (case broadcast_shapes a b of None \<Rightarrow> None | Some ab \<Rightarrow> broadcast_shapes ab c)"

text \<open>
  The entry of an operand that position \<open>i\<close> of the broadcast result reads, both shapes
  written last axis first: along an axis of size \<open>1\<close> of the operand the index is \<open>0\<close>,
  along any other axis it is the index of the result, and axes the operand lacks are ignored.
\<close>

fun source_index :: "nat list \<Rightarrow> nat list \<Rightarrow> nat \<Rightarrow> nat" where
  "source_index (s # ss) (t # ts) i =
     (if s = 1 then 0 else i mod t) + s * source_index ss ts (i div t)"
| "source_index [] ts i = 0"
| "source_index (s # ss) [] i = 0"

text \<open>The entries of a tensor expanded to the shape \<open>T\<close> it broadcasts to.\<close>

definition broadcast_to :: "nat list \<Rightarrow> tensor \<Rightarrow> real list" where
  "broadcast_to T t =
     map (\<lambda>i. vals t ! source_index (rev (shape t)) (rev T) i) [0..<prod_list T]"

section \<open>ZINB loss\<close>

text \<open>The default of the \<^verbatim>\<open>eps\<close> parameter, \<^verbatim>\<open>1e-10\<close>.\<close>

definition eps_default :: real where
  "eps_default = 1 / 10 ^ 10"

text \<open>Line 14-15, at one entry: the negative binomial part.\<close>

definition nb_case :: "(real \<Rightarrow> real) \<Rightarrow> real \<Rightarrow> real \<Rightarrow> real \<Rightarrow> real \<Rightarrow> real" where
  "nb_case lgamma y r p eps =
     - lgamma (r + eps) + lgamma (y + r + eps) - lgamma (y + 1)
     + r * ln (p + eps) + y * ln (1 - (p + eps))"

text \<open>Line 18-19, at one entry: the zero-inflated part, \<^verbatim>\<open>torch.where(y_true < eps, ..., 0.0)\<close>.\<close>

definition zero_nb :: "real \<Rightarrow> real \<Rightarrow> real" where
  "zero_nb p r = p powr r"

definition zero_case :: "real \<Rightarrow> real \<Rightarrow> real \<Rightarrow> real \<Rightarrow> real" where
  "zero_case y r p eps =
     (if y < eps
      then - ln (zero_nb p r + (1 - zero_nb p r) * exp (- r * ln (1 - p + eps)))
      else 0)"

text \<open>
  \<^verbatim>\<open>zinb_loss(y_true, y_pred, pi, r, eps)\<close>. The elementwise operations of lines 14 to 19
  broadcast \<^verbatim>\<open>y_true\<close>, \<^verbatim>\<open>r\<close> and \<^verbatim>\<open>pi\<close> together and raise when their shapes do not allow
  it; the mean of line 21 runs over the entries of the broadcast shape. \<^verbatim>\<open>y_pred\<close> is
  converted to float and not used again.
\<close>

definition zinb_loss ::
  "(real \<Rightarrow> real) \<Rightarrow> tensor \<Rightarrow> tensor \<Rightarrow> tensor \<Rightarrow> tensor \<Rightarrow> real \<Rightarrow> error + real" where
  "zinb_loss lgamma y_true y_pred pi_t r eps =
     (case broadcast_shapes3 (shape y_true) (shape r) (shape pi_t) of
        None \<Rightarrow> Inl RuntimeError
      | Some T \<Rightarrow>
          (let ys = broadcast_to T y_true;
               ps = broadcast_to T pi_t;
               rs = broadcast_to T r
           in Inr (- mean (map (\<lambda>i. zero_case (ys ! i) (rs ! i) (ps ! i) eps
                                   + nb_case lgamma (ys ! i) (rs ! i) (ps ! i) eps)
                            [0..<prod_list T]))))"

section \<open>Composite loss\<close>

text \<open>\<^verbatim>\<open>t.mean(0)\<close>: the mean over the first (sample) axis; a tensor without axes is its own mean.\<close>

definition mean0 :: "tensor \<Rightarrow> tensor" where
  "mean0 t =
     (case shape t of
        [] \<Rightarrow> t
      | n # rest \<Rightarrow>
          (let m = prod_list rest
           in \<lparr>shape = rest,
               vals = map (\<lambda>j. (\<Sum>i\<leftarrow>[0..<n]. vals t ! (i * m + j)) / real n) [0..<m],
               device = device t\<rparr>))"

text \<open>
  \<^verbatim>\<open>F.mse_loss(input, target)\<close> with the default mean reduction: the operands are broadcast
  together, which raises when their shapes do not allow it, and the squared differences are
  averaged over the entries of the broadcast shape.
\<close>

definition mse_loss :: "tensor \<Rightarrow> tensor \<Rightarrow> error + real" where
  "mse_loss a b =
     (case broadcast_shapes (shape a) (shape b) of
        None \<Rightarrow> Inl RuntimeError
      | Some T \<Rightarrow> Inr (mean (map2 (\<lambda>x y. (x - y)\<^sup>2) (broadcast_to T a) (broadcast_to T b))))"

text \<open>What \<^verbatim>\<open>model(data, labels)\<close> returns.\<close>

record model_output =
  reconstructed :: tensor
  mus :: tensor
  logvars :: tensor
  pis :: tensor
  zs :: tensor

text \<open>Lines 51 and 54.\<close>

definition fraction_loss :: "model_output \<Rightarrow> tensor \<Rightarrow> error + real" where
  "fraction_loss out proportion_tensor =
     (let proportion_tensor_reshaped = to (device (pis out)) proportion_tensor
      in mse_loss (mean0 (pis out)) proportion_tensor_reshaped)"

text \<open>Line 55.\<close>

definition loss_recon :: "model_output \<Rightarrow> tensor \<Rightarrow> error + real" where
  "loss_recon out data = mse_loss (reconstructed out) data"

text \<open>
  Line 64; \<^verbatim>\<open>1e9\<close> is the literal divisor. The sum runs over the entries of the shape
  \<^verbatim>\<open>logvars\<close> and \<^verbatim>\<open>mus\<close> broadcast to.
\<close>

definition loss_kl :: "tensor \<Rightarrow> tensor \<Rightarrow> error + real" where
  "loss_kl mu logvar =
     (case broadcast_shapes (shape logvar) (shape mu) of
        None \<Rightarrow> Inl RuntimeError
      | Some T \<Rightarrow>
          Inr (0.5 * sum_list (map2 (\<lambda>lv m. - 1 - lv + m\<^sup>2 + exp lv)
                                (broadcast_to T logvar) (broadcast_to T mu)) / 10 ^ 9))"

text \<open>Lines 65 and 66.\<close>

definition loss_kl_weighted :: "real \<Rightarrow> real \<Rightarrow> real" where
  "loss_kl_weighted kl kl_weight =
     (let w = kl * kl_weight in if w > 1 then 1 else w)"

text \<open>Line 68.\<close>

definition loss :: "real \<Rightarrow> real \<Rightarrow> real \<Rightarrow> real \<Rightarrow> real" where
  "loss recon_val zinb_loss_val fraction_val kl_weighted_val =
     recon_val * 5 + zinb_loss_val + (fraction_val * 10) + kl_weighted_val"

text \<open>
  Lines 51 to 68 for one batch, in the order of the source: \<open>data\<close> is the batch on the
  device, \<open>out\<close> the model's output for it, \<open>pez\<close> and \<open>od\<close> the model's \<^verbatim>\<open>prob_extra_zero\<close>
  and \<^verbatim>\<open>over_disp\<close>. The first operation that raises ends the computation.
\<close>

definition batch_loss ::
  "(real \<Rightarrow> real) \<Rightarrow> tensor \<Rightarrow> real \<Rightarrow> tensor \<Rightarrow> tensor \<Rightarrow> tensor \<Rightarrow> model_output
    \<Rightarrow> error + real" where
  "batch_loss lg proportion_tensor kl_weight pez od data out =
     (case fraction_loss out proportion_tensor of
        Inl e \<Rightarrow> Inl e
      | Inr fraction_val \<Rightarrow>
     (case loss_recon out data of
        Inl e \<Rightarrow> Inl e
      | Inr recon_val \<Rightarrow>
     (case zinb_loss lg data (reconstructed out) pez od eps_default of
        Inl e \<Rightarrow> Inl e
      | Inr zinb_loss_val \<Rightarrow>
     (case loss_kl (mus out) (logvars out) of
        Inl e \<Rightarrow> Inl e
      | Inr kl \<Rightarrow>
          Inr (loss recon_val zinb_loss_val fraction_val (loss_kl_weighted kl kl_weight))))))"

section \<open>The epoch driver\<close>

text \<open>The value passed as \<^verbatim>\<open>base_dir\<close>: \<^verbatim>\<open>None\<close>, a \<^verbatim>\<open>str\<close>, a \<^verbatim>\<open>Path\<close>, or anything else.\<close>

datatype pyval = PyNone | is_PyStr: PyStr string | is_PyPath: PyPath string | PyOther

datatype 'p artifact = TensorFile tensor | StateDict 'p | Figure tensor

text \<open>
  The calls the function makes on its collaborators, in order. \<open>Forward m\<close> is a call
  \<^verbatim>\<open>model(data, labels)\<close> made while the model's training flag is \<open>m\<close>; \<open>Backward l\<close> is
  \<^verbatim>\<open>loss.backward()\<close> on the loss value \<open>l\<close>; \<open>Save path a\<close> is a file written.
\<close>

datatype 'p event =
  SetTrain | ModelTo device | ZeroGrad | Forward bool | Backward real | OptStep | SetEval
  | Save string "'p artifact"

text \<open>
  The collaborators, over the type \<open>'p\<close> of the parameters of the model and the optimizer:
  the forward pass (which may depend on the training flag), the two parameter tensors read by
  the loss, the effect of \<^verbatim>\<open>loss.backward(); optimizer.step()\<close> on the parameters, the
  \<^verbatim>\<open>lgamma\<close> function, which paths can be written, and the UMAP block of lines 112 to 127
  (the colour lookups and the two \<^verbatim>\<open>fit_transform\<close> calls), which yields the two embeddings
  or raises.
\<close>

record 'p collab =
  forward :: "'p \<Rightarrow> bool \<Rightarrow> tensor \<Rightarrow> tensor \<Rightarrow> model_output"
  prob_extra_zero :: "'p \<Rightarrow> tensor"
  over_disp :: "'p \<Rightarrow> tensor"
  optimize :: "'p \<Rightarrow> tensor \<Rightarrow> tensor \<Rightarrow> tensor \<Rightarrow> real \<Rightarrow> 'p"
  lgamma :: "real \<Rightarrow> real"
  writable :: "string \<Rightarrow> bool"
  umap_embed ::
    "(string \<times> int) list \<Rightarrow> (string \<times> string) list \<Rightarrow> tensor \<Rightarrow> tensor \<Rightarrow> tensor
      \<Rightarrow> error + (tensor \<times> tensor)"

text \<open>The model with its mode flag, and the calls made so far.\<close>

record 'p state =
  params :: 'p
  training :: bool
  trace :: "'p event list"

text \<open>
  Lines 35 to 78, one pass of the loop body. The result is the exception with the state
  at the raise (the assertion of line 49, or an operation of lines 54 to 64 on shapes that
  do not broadcast), or the state after the optimizer step with the batch's loss and the
  values the loop leaves in \<^verbatim>\<open>reconstructed, mus, logvars, pis, zs\<close> and \<^verbatim>\<open>labels\<close>.
\<close>

definition train_batch ::
  "'p collab \<Rightarrow> tensor \<Rightarrow> real \<Rightarrow> device \<Rightarrow> 'p state \<Rightarrow> tensor \<times> tensor
    \<Rightarrow> (error \<times> 'p state) + ('p state \<times> real \<times> model_output \<times> tensor)" where
  "train_batch env proportion_tensor kl_weight dev st b =
     (let data = to dev (fst b);
          labels = to dev (snd b);
          st1 = st\<lparr>trace := trace st @ [ZeroGrad]\<rparr>;
          out = forward env (params st1) (training st1) data labels;
          st2 = st1\<lparr>trace := trace st1 @ [Forward (training st1)]\<rparr>
      in if shape (reconstructed out) \<noteq> shape data then Inl (AssertionError, st2)
         else
           (case batch_loss (lgamma env) proportion_tensor kl_weight
                   (prob_extra_zero env (params st2)) (over_disp env (params st2)) data out of
              Inl e \<Rightarrow> Inl (e, st2)
            | Inr l \<Rightarrow>
                (let st3 = st2\<lparr>params := optimize env (params st2) data labels
                                         proportion_tensor kl_weight,
                              trace := trace st2 @ [Backward l, OptStep]\<rparr>
                 in Inr (st3, l, out, labels))))"

text \<open>
  The \<^verbatim>\<open>for\<close> loop of line 31 over the batches of the data loader, with the running
  \<^verbatim>\<open>total_loss\<close> and the values of the last batch (\<open>None\<close> before the first one).
\<close>

fun batches_loop ::
  "'p collab \<Rightarrow> tensor \<Rightarrow> real \<Rightarrow> device \<Rightarrow> 'p state \<Rightarrow> real \<Rightarrow> (model_output \<times> tensor) option
    \<Rightarrow> (tensor \<times> tensor) list
    \<Rightarrow> (error \<times> 'p state) + ('p state \<times> real \<times> (model_output \<times> tensor) option)" where
  "batches_loop env proportion_tensor kl_weight dev st total_loss last_vals [] =
     Inr (st, total_loss, last_vals)"
| "batches_loop env proportion_tensor kl_weight dev st total_loss last_vals (b # bs) =
     (case train_batch env proportion_tensor kl_weight dev st b of
        Inl e \<Rightarrow> Inl e
      | Inr (st', l, out, labels) \<Rightarrow>
          batches_loop env proportion_tensor kl_weight dev st' (total_loss + l)
            (Some (out, labels)) bs)"

text \<open>Lines 87 and 154: which branch follows the loop.\<close>

datatype branch = Periodic | Final | NoSave

definition checkpoint_branch :: "int \<Rightarrow> int \<Rightarrow> branch" where
  "checkpoint_branch epoch max_epochs =
     (if (epoch + 1) mod 10 = 0 \<and> epoch \<noteq> max_epochs - 1 then Periodic
      else if epoch = max_epochs - 1 then Final
      else NoSave)"

text \<open>
  A write to \<^verbatim>\<open>base_dir + name\<close>. The concatenation is evaluated first and raises
  \<open>TypeError\<close> unless \<^verbatim>\<open>base_dir\<close> is a \<^verbatim>\<open>str\<close>.
\<close>

definition save ::
  "'p collab \<Rightarrow> pyval \<Rightarrow> 'p state \<Rightarrow> string \<times> 'p artifact \<Rightarrow> (error \<times> 'p state) + 'p state" where
  "save env base_dir st f =
     (case base_dir of
        PyStr s \<Rightarrow>
          (let path = s @ fst f
           in if writable env path then Inr (st\<lparr>trace := trace st @ [Save path (snd f)]\<rparr>)
              else Inl (OSError, st))
      | _ \<Rightarrow> Inl (TypeError, st))"

fun save_all ::
  "'p collab \<Rightarrow> pyval \<Rightarrow> 'p state \<Rightarrow> (string \<times> 'p artifact) list \<Rightarrow> (error \<times> 'p state) + 'p state" where
  "save_all env base_dir st [] = Inr st"
| "save_all env base_dir st (f # fs) =
     (case save env base_dir st f of
        Inl e \<Rightarrow> Inl e
      | Inr st' \<Rightarrow> save_all env base_dir st' fs)"

text \<open>Lines 88 to 152.\<close>

definition save_periodic ::
  "'p collab \<Rightarrow> pyval \<Rightarrow> bool \<Rightarrow> (string \<times> int) list \<Rightarrow> (string \<times> string) list \<Rightarrow> 'p state
    \<Rightarrow> model_output \<Rightarrow> tensor \<Rightarrow> (error \<times> 'p state) + 'p state" where
  "save_periodic env base_dir plot_umap mapping_dict color_map st out labels =
     (case save_all env base_dir st
             [(''/GMVAE_reconstructed.pt'', TensorFile (reconstructed out)),
              (''/GMVAE_mus.pt'', TensorFile (mean0 (mus out))),
              (''/GMVAE_logvars.pt'', TensorFile (mean0 (logvars out))),
              (''/GMVAE_pis.pt'', TensorFile (mean0 (pis out)))] of
        Inl e \<Rightarrow> Inl e
      | Inr st1 \<Rightarrow>
          (let st2 = st1\<lparr>training := False, trace := trace st1 @ [SetEval]\<rparr>
           in case save env base_dir st2 (''GMVAE_model.pt'', StateDict (params st2)) of
                Inl e \<Rightarrow> Inl e
              | Inr st3 \<Rightarrow>
                  if plot_umap
                  then (case umap_embed env mapping_dict color_map labels (reconstructed out) (zs out) of
                          Inl e \<Rightarrow> Inl (e, st3)
                        | Inr (embedding_z, embedding_recon) \<Rightarrow>
                            save_all env base_dir st3
                              [(''umap_latent.png'', Figure embedding_z),
                               (''umap_recon.png'', Figure embedding_recon)])
                  else Inr st3))"

text \<open>Lines 155 to 177.\<close>

definition save_final ::
  "'p collab \<Rightarrow> pyval \<Rightarrow> 'p state \<Rightarrow> model_output \<Rightarrow> (error \<times> 'p state) + 'p state" where
  "save_final env base_dir st out =
     (case save_all env base_dir st
             [(''GMVAE_reconstructed.pt'', TensorFile (reconstructed out)),
              (''/GMVAE_mus.pt'', TensorFile (mean0 (mus out))),
              (''/GMVAE_logvars.pt'', TensorFile (mean0 (logvars out))),
              (''/GMVAE_pis.pt'', TensorFile (mean0 (pis out)))] of
        Inl e \<Rightarrow> Inl e
      | Inr st1 \<Rightarrow>
          (let st2 = st1\<lparr>training := False, trace := trace st1 @ [SetEval]\<rparr>
           in save env base_dir st2 (''/GMVAE_model.pt'', StateDict (params st2))))"

text \<open>
  Lines 80 to 179, after the loop: the summary prints read the loss variables of the last
  batch, which are unbound when the loop body never ran; then the checkpoint branch; then
  \<^verbatim>\<open>return total_loss\<close>.
\<close>

definition after_loop ::
  "'p collab \<Rightarrow> int \<Rightarrow> (string \<times> int) list \<Rightarrow> (string \<times> string) list \<Rightarrow> int \<Rightarrow> pyval \<Rightarrow> bool
    \<Rightarrow> 'p state \<Rightarrow> real \<Rightarrow> (model_output \<times> tensor) option
    \<Rightarrow> (error \<times> 'p state) + ('p state \<times> real)" where
  "after_loop env epoch mapping_dict color_map max_epochs base_dir plot_umap st total_loss last_vals =
     (case last_vals of
        None \<Rightarrow> Inl (UnboundLocalError, st)
      | Some (out, labels) \<Rightarrow>
          (case checkpoint_branch epoch max_epochs of
             Periodic \<Rightarrow>
               (case save_periodic env base_dir plot_umap mapping_dict color_map st out labels of
                  Inl e \<Rightarrow> Inl e
                | Inr st' \<Rightarrow> Inr (st', total_loss))
           | Final \<Rightarrow>
               (case save_final env base_dir st out of
                  Inl e \<Rightarrow> Inl e
                | Inr st' \<Rightarrow> Inr (st', total_loss))
           | NoSave \<Rightarrow> Inr (st, total_loss)))"

text \<open>
  \<^verbatim>\<open>train_GMVAE\<close>, lines 24 to 179, with assertions enabled. The model and the optimizer are
  the state \<open>st\<close> and the collaborators \<open>env\<close>; the data loader is the finite list of its
  batches. The \<^verbatim>\<open>print\<close> calls are left out but for the unbound names they can raise on.
\<close>

definition train_GMVAE ::
  "'p collab \<Rightarrow> 'p state \<Rightarrow> int \<Rightarrow> (tensor \<times> tensor) list \<Rightarrow> tensor \<Rightarrow> real \<Rightarrow> (string \<times> int) list
    \<Rightarrow> (string \<times> string) list \<Rightarrow> int \<Rightarrow> device \<Rightarrow> pyval \<Rightarrow> bool
    \<Rightarrow> (error \<times> 'p state) + ('p state \<times> real)" where
  "train_GMVAE env st epoch dataloader proportion_tensor kl_weight mapping_dict color_map
       max_epochs dev base_dir plot_umap =
     (if base_dir = PyNone then Inl (AssertionError, st)
      else if \<not> (is_PyStr base_dir \<or> is_PyPath base_dir) then Inl (AssertionError, st)
      else
        (let st1 = st\<lparr>training := True, trace := trace st @ [SetTrain]\<rparr>;
             st2 = st1\<lparr>trace := trace st1 @ [ModelTo dev]\<rparr>
         in case batches_loop env proportion_tensor kl_weight dev st2 0 None dataloader of
              Inl e \<Rightarrow> Inl e
            | Inr (st3, total_loss, last_vals) \<Rightarrow>
                after_loop env epoch mapping_dict color_map max_epochs base_dir plot_umap
                  st3 total_loss last_vals))"

text \<open>The state a call ends in, whether it returns or raises.\<close>

definition final_state :: "(error \<times> 'p state) + ('p state \<times> 'a) \<Rightarrow> 'p state" where
  "final_state res = (case res of Inl (e, st) \<Rightarrow> st | Inr (st, v) \<Rightarrow> st)"

section \<open>Reference definitions\<close>

text \<open>
  A concrete function for the \<^verbatim>\<open>lgamma\<close> parameter in closed statements: the values of
  \<open>ln \<Gamma>\<close> at \<open>1\<close>, \<open>3/2\<close>, \<open>2\<close> and \<open>5/2\<close> (\<open>\<Gamma> 1 = \<Gamma> 2 = 1\<close>, \<open>\<Gamma> (3/2) = sqrt pi / 2\<close>,
  \<open>\<Gamma> (5/2) = 3 * sqrt pi / 4\<close>), and \<open>0\<close> elsewhere. Only its values at these four points
  are ever computed below; everywhere else an application of it is left as it stands.
\<close>

definition lgamma_halves :: "real \<Rightarrow> real" where
  "lgamma_halves x =
     (if x = 1 then 0
      else if x = 3 / 2 then ln (sqrt pi / 2)
      else if x = 2 then 0
      else if x = 5 / 2 then ln (3 * sqrt pi / 4)
      else 0)"

text \<open>
  The negative binomial term with \<^verbatim>\<open>eps\<close> inside every one of its five terms: the code's term
  with \<^verbatim>\<open>lgamma(y + 1)\<close> stabilised as well.
\<close>

definition nb_case_stabilised :: "(real \<Rightarrow> real) \<Rightarrow> real \<Rightarrow> real \<Rightarrow> real \<Rightarrow> real \<Rightarrow> real" where
  "nb_case_stabilised lg y r p eps =
     lg (y + r + eps) - lg (r + eps) - lg (y + 1 + eps)
     + r * ln (p + eps) + y * ln (1 - (p + eps))"

text \<open>
  The zero-inflation term as a formula without \<^verbatim>\<open>eps\<close>, applied at the entries equal to zero.
\<close>

definition zero_case_unstabilised :: "real \<Rightarrow> real \<Rightarrow> real \<Rightarrow> real" where
  "zero_case_unstabilised y r p =
     (if y = 0 then - ln (zero_nb p r + (1 - zero_nb p r) * exp (- r * ln (1 - p))) else 0)"

text \<open>Concrete tensors for evaluating the definitions.\<close>

definition ex_mu :: tensor where
  "ex_mu = \<lparr>shape = [1, 2], vals = [20000, 40000], device = ''cpu''\<rparr>"

definition ex_logvar :: tensor where
  "ex_logvar = \<lparr>shape = [1, 2], vals = [0, 0], device = ''cpu''\<rparr>"

definition ex_counts :: tensor where
  "ex_counts = \<lparr>shape = [1, 2], vals = [0, 2], device = ''cpu''\<rparr>"

definition ex_pi :: tensor where
  "ex_pi = \<lparr>shape = [2], vals = [1 / 2, 1 / 2], device = ''cpu''\<rparr>"

definition ex_r :: tensor where
  "ex_r = \<lparr>shape = [2], vals = [1, 1], device = ''cpu''\<rparr>"

definition ex_data :: tensor where
  "ex_data = \<lparr>shape = [2, 2], vals = [0, 2, 1, 0], device = ''cuda''\<rparr>"

definition ex_proportion :: tensor where
  "ex_proportion = \<lparr>shape = [2], vals = [1 / 2, 1 / 2], device = ''cpu''\<rparr>"

text \<open>A target vector of three proportions, for a model with two mixture columns.\<close>

definition ex_proportion3 :: tensor where
  "ex_proportion3 = \<lparr>shape = [3], vals = [1 / 2, 1 / 4, 1 / 4], device = ''cpu''\<rparr>"

definition ex_out :: model_output where
  "ex_out = \<lparr>reconstructed = \<lparr>shape = [2, 2], vals = [1, 2, 1, 1], device = ''cuda''\<rparr>,
             mus = ex_mu, logvars = ex_logvar,
             pis = \<lparr>shape = [2, 2], vals = [1 / 5, 4 / 5, 2 / 5, 3 / 5], device = ''cuda''\<rparr>,
             zs = ex_mu\<rparr>"

text \<open>The value of \<^verbatim>\<open>zinb_loss\<close> on the example batch, left as the expression it is.\<close>

definition ex_zinb :: real where
  "ex_zinb = projr (zinb_loss lgamma_halves ex_data ex_data ex_pi ex_r eps_default)"

text \<open>
  The loss of the example batch for the model that reconstructs its input: no reconstruction
  error, the fraction error \<open>1/25\<close> with weight \<open>10\<close>, the KL term clamped to \<open>1\<close>.
\<close>

definition ex_loss :: real where
  "ex_loss = ex_zinb + 7 / 5"



definition ex_pi2 :: tensor where
  "ex_pi2 = \<lparr>shape = [2], vals = [1 / 2, 1 / 4], device = ''cpu''\<rparr>"




text \<open>A column of two entries, of shape \<open>(2, 1)\<close>.\<close>

definition ex_column :: tensor where
  "ex_column = \<lparr>shape = [2, 1], vals = [3, 7], device = ''cpu''\<rparr>"

text \<open>The training flags seen by the forward passes of a list of calls, in order.\<close>

primrec forward_modes :: "'p event list \<Rightarrow> bool list" where
  "forward_modes [] = []"
| "forward_modes (ev # evs) = (case ev of Forward m \<Rightarrow> [m] | _ \<Rightarrow> []) @ forward_modes evs"

text \<open>The calls a run adds to the trace of the state it starts from.\<close>

definition new_events :: "'p state \<Rightarrow> (error \<times> 'p state) + ('p state \<times> 'a) \<Rightarrow> 'p event list" where
  "new_events st res = drop (length (trace st)) (trace (final_state res))"

text \<open>The state a checkpoint write ends in, whether it succeeds or raises.\<close>

definition end_state :: "(error \<times> 'p state) + 'p state \<Rightarrow> 'p state" where
  "end_state res = (case res of Inl (e, st) \<Rightarrow> st | Inr st \<Rightarrow> st)"

text \<open>The state at line 31, after \<^verbatim>\<open>model.train()\<close> and \<^verbatim>\<open>model.to(device)\<close>.\<close>

definition entry_state :: "device \<Rightarrow> 'p state \<Rightarrow> 'p state" where
  "entry_state dev st = st\<lparr>training := True, trace := trace st @ [SetTrain, ModelTo dev]\<rparr>"

text \<open>
  The losses of the batches of an epoch, one after the other, up to the first batch whose
  loss cannot be computed: each batch is evaluated by the model in training mode with the
  parameters left by the optimizer steps before it.
\<close>

fun epoch_losses ::
  "'p collab \<Rightarrow> tensor \<Rightarrow> real \<Rightarrow> device \<Rightarrow> 'p \<Rightarrow> (tensor \<times> tensor) list \<Rightarrow> real list" where
  "epoch_losses env proportion_tensor kl_weight dev p [] = []"
| "epoch_losses env proportion_tensor kl_weight dev p (b # bs) =
     (let data = to dev (fst b);
          labels = to dev (snd b);
          out = forward env p True data labels
      in case batch_loss (lgamma env) proportion_tensor kl_weight (prob_extra_zero env p)
                (over_disp env p) data out of
           Inl e \<Rightarrow> []
         | Inr l \<Rightarrow>
             l # epoch_losses env proportion_tensor kl_weight dev
                   (optimize env p data labels proportion_tensor kl_weight) bs)"

text \<open>A tensor has as many entries as its shape says.\<close>

definition well_formed :: "tensor \<Rightarrow> bool" where
  "well_formed t \<longleftrightarrow> length (vals t) = prod_list (shape t)"


text \<open>
  Concrete collaborators: a model whose reconstruction is its input and whose other outputs
  are fixed, an optimizer that counts its steps, a file system that accepts every write. The
  second model returns a reconstruction of shape \<open>(32, 100)\<close> whatever its input.
\<close>

definition ex_labels :: tensor where
  "ex_labels = \<lparr>shape = [2], vals = [0, 1], device = ''cpu''\<rparr>"

definition ex_env :: "nat collab" where
  "ex_env =
     \<lparr>forward = (\<lambda>p m data labels. ex_out\<lparr>reconstructed := data\<rparr>),
      prob_extra_zero = (\<lambda>p. ex_pi),
      over_disp = (\<lambda>p. ex_r),
      optimize = (\<lambda>p data labels proportion_tensor kl_weight. Suc p),
      lgamma = lgamma_halves,
      writable = (\<lambda>path. True),
      umap_embed = (\<lambda>mapping_dict color_map labels recon z. Inr (z, recon))\<rparr>"

definition ex_env_wide :: "nat collab" where
  "ex_env_wide =
     ex_env\<lparr>forward := (\<lambda>p m data labels.
        ex_out\<lparr>reconstructed := \<lparr>shape = [32, 100], vals = replicate 3200 0, device = device data\<rparr>\<rparr>)\<rparr>"

definition ex_batch_99 :: "tensor \<times> tensor" where
  "ex_batch_99 =
     (\<lparr>shape = [32, 99], vals = replicate 3168 0, device = ''cpu''\<rparr>,
      \<lparr>shape = [32], vals = replicate 32 0, device = ''cpu''\<rparr>)"

definition ex_state :: "nat state" where
  "ex_state = \<lparr>params = 0, training = False, trace = []\<rparr>"

definition ex_batch :: "tensor \<times> tensor" where
  "ex_batch = (ex_data, ex_labels)"

section \<open>Auxiliary facts\<close>

lemma sum_list_map2_nth:
  assumes "length xs = length ys"
  shows "sum_list (map2 f xs ys) = (\<Sum>i<length xs. f (xs ! i) (ys ! i))"
proof -
  have "sum_list (map2 f xs ys) = (\<Sum>i = 0..<length (map2 f xs ys). map2 f xs ys ! i)"
    by (rule sum_list_sum_nth)
  also have "\<dots> = (\<Sum>i<length xs. f (xs ! i) (ys ! i))"
    using assms by (intro sum.cong) (auto simp: lessThan_atLeast0)
  finally show ?thesis .
qed

lemma sum_list_map_upt_lessThan: "sum_list (map f [0..<n]) = (\<Sum>i<n. f i)"
  by (simp add: interv_sum_list_conv_sum_set_nat lessThan_atLeast0)

lemma lgamma_halves_5_2: "lgamma_halves (5 / 2) \<noteq> 0"
proof -
  have "(4 / 3 :: real)\<^sup>2 < pi"
    using pi_ge_two by (simp add: power2_eq_square)
  then have "sqrt ((4 / 3)\<^sup>2) < sqrt pi"
    by (simp only: real_sqrt_less_iff)
  then have "3 * sqrt pi / 4 > 1"
    by simp
  then have "ln (3 * sqrt pi / 4) > 0"
    by (simp only: ln_gt_zero)
  then show ?thesis
    by (simp add: lgamma_halves_def)
qed

subsection \<open>Broadcasting of equal shapes\<close>

lemma broadcast_dims_same: "broadcast_dims xs xs = Some xs"
  by (induction xs) simp_all

lemma broadcast_shapes_same: "broadcast_shapes s s = Some s"
  by (simp add: broadcast_shapes_def broadcast_dims_same)


lemma source_index_same: "i < prod_list xs \<Longrightarrow> source_index xs xs i = i"
proof (induction xs arbitrary: i)
  case Nil
  then show ?case by simp
next
  case (Cons x xs)
  have pos: "0 < x"
    using Cons.prems by (cases x) simp_all
  have "i div x < prod_list xs"
    using Cons.prems pos by (simp add: less_mult_imp_div_less mult.commute)
  then have "source_index xs xs (i div x) = i div x"
    by (rule Cons.IH)
  then show ?case
    by simp
qed

lemma broadcast_to_same:
  assumes "shape t = T" and "well_formed t"
  shows "broadcast_to T t = vals t"
proof -
  have "map (\<lambda>i. vals t ! source_index (rev T) (rev T) i) [0..<prod_list T]
      = map (\<lambda>i. vals t ! i) [0..<prod_list T]"
    by (intro map_cong refl) (simp add: source_index_same)
  also have "\<dots> = vals t"
    using assms map_nth [of "vals t"] by (simp add: well_formed_def)
  finally show ?thesis
    using assms(1) by (simp add: broadcast_to_def)
qed

lemma length_broadcast_to: "length (broadcast_to T t) = prod_list T"
  by (simp add: broadcast_to_def)

text \<open>
  A row is repeated along the first axis, a column along the second; shapes whose aligned
  axes differ and are both other than \<open>1\<close> do not broadcast.
\<close>

lemma broadcast_to_row: "broadcast_to [2, 2] ex_pi2 = [1 / 2, 1 / 4, 1 / 2, 1 / 4]"
  by (simp add: broadcast_to_def ex_pi2_def upt_rec)

lemma broadcast_to_column: "broadcast_to [2, 2] ex_column = [3, 3, 7, 7]"
  by (simp add: broadcast_to_def ex_column_def upt_rec)

lemma broadcast_shapes_examples:
  "broadcast_shapes [2, 1] [2] = Some [2, 2]"
  "broadcast_shapes [2, 2] [2] = Some [2, 2]"
  "broadcast_shapes [2] [3] = None"
  "broadcast_shapes [2, 3] [2] = None"
  by (simp_all add: broadcast_shapes_def)

subsection \<open>When the losses are defined\<close>

lemma mse_loss_same_shape:
  assumes "shape a = shape b" and "well_formed a" and "well_formed b"
  shows "mse_loss a b
    = Inr ((\<Sum>i<length (vals a). (vals a ! i - vals b ! i)\<^sup>2) / real (length (vals a)))"
proof -
  have len: "length (vals a) = length (vals b)"
    using assms by (simp add: well_formed_def)
  have "mse_loss a b = Inr (mean (map2 (\<lambda>x y. (x - y)\<^sup>2) (vals a) (vals b)))"
    using assms by (simp add: mse_loss_def broadcast_shapes_same broadcast_to_same)
  then show ?thesis
    using len by (simp add: mean_def sum_list_map2_nth)
qed

lemma loss_kl_same_shape:
  assumes "shape logvar = shape mu" and "well_formed logvar" and "well_formed mu"
  shows "loss_kl mu logvar
    = Inr (0.5 * (\<Sum>i<length (vals mu).
                    - 1 - vals logvar ! i + (vals mu ! i)\<^sup>2 + exp (vals logvar ! i))
           / 1000000000)"
proof -
  have len: "length (vals logvar) = length (vals mu)"
    using assms by (simp add: well_formed_def)
  have "loss_kl mu logvar
      = Inr (0.5 * sum_list (map2 (\<lambda>lv m. - 1 - lv + m\<^sup>2 + exp lv) (vals logvar) (vals mu))
             / 10 ^ 9)"
    using assms by (simp add: loss_kl_def broadcast_shapes_same broadcast_to_same)
  then show ?thesis
    using len by (simp add: sum_list_map2_nth)
qed

lemma mse_loss_error: "mse_loss a b = Inl e \<Longrightarrow> e = RuntimeError"
  by (auto simp: mse_loss_def split: option.splits)

lemma loss_kl_error: "loss_kl mu logvar = Inl e \<Longrightarrow> e = RuntimeError"
  by (auto simp: loss_kl_def split: option.splits)

lemma zinb_loss_error: "zinb_loss lg y_true y_pred pi_t r eps = Inl e \<Longrightarrow> e = RuntimeError"
  by (auto simp: zinb_loss_def Let_def split: option.splits)

lemma batch_loss_error:
  "batch_loss lg proportion_tensor kl_weight pez od data out = Inl e \<Longrightarrow> e = RuntimeError"
  by (auto simp: batch_loss_def fraction_loss_def loss_recon_def Let_def
      dest: mse_loss_error loss_kl_error zinb_loss_error split: sum.splits)

lemma batch_loss_components:
  assumes "fraction_loss out proportion_tensor = Inr f"
    and "loss_recon out data = Inr r"
    and "zinb_loss lg data (reconstructed out) pez od eps_default = Inr z"
    and "loss_kl (mus out) (logvars out) = Inr k"
  shows "batch_loss lg proportion_tensor kl_weight pez od data out
    = Inr (loss r z f (loss_kl_weighted k kl_weight))"
  using assms by (simp add: batch_loss_def)

lemma batch_loss_Inr:
  assumes "batch_loss lg proportion_tensor kl_weight pez od data out = Inr l"
  shows "\<exists>f r z k. fraction_loss out proportion_tensor = Inr f
    \<and> loss_recon out data = Inr r
    \<and> zinb_loss lg data (reconstructed out) pez od eps_default = Inr z
    \<and> loss_kl (mus out) (logvars out) = Inr k
    \<and> l = loss r z f (loss_kl_weighted k kl_weight)"
  using assms by (auto simp: batch_loss_def split: sum.splits)

subsection \<open>The loss of the example batch\<close>

lemma to_ex_data: "to ''cuda'' ex_data = ex_data"
  by (simp add: to_def ex_data_def)

lemma ex_batch_loss:
  "batch_loss lgamma_halves ex_proportion kl_weight ex_pi ex_r ex_data
     (ex_out\<lparr>reconstructed := ex_data\<rparr>) = Inr (ex_zinb + 2 / 5 + loss_kl_weighted 1 kl_weight)"
proof -
  let ?out = "ex_out\<lparr>reconstructed := ex_data\<rparr>"
  have m: "mean0 (pis ?out) = \<lparr>shape = [2], vals = [3 / 10, 7 / 10], device = ''cuda''\<rparr>"
    by (simp add: mean0_def ex_out_def Let_def upt_rec)
  have p: "to (device (pis ?out)) ex_proportion
      = \<lparr>shape = [2], vals = [1 / 2, 1 / 2], device = ''cuda''\<rparr>"
    by (simp add: to_def ex_out_def ex_proportion_def)
  have f: "fraction_loss ?out ex_proportion = Inr (1 / 25)"
    using mse_loss_same_shape [of "mean0 (pis ?out)" "to (device (pis ?out)) ex_proportion"]
    unfolding fraction_loss_def Let_def m p
    by (simp add: well_formed_def numeral_2_eq_2 power2_eq_square)
  have r: "loss_recon ?out ex_data = Inr 0"
    using mse_loss_same_shape [of ex_data ex_data]
    by (simp add: loss_recon_def well_formed_def ex_data_def)
  have z: "zinb_loss lgamma_halves ex_data (reconstructed ?out) ex_pi ex_r eps_default = Inr ex_zinb"
    by (simp add: ex_zinb_def zinb_loss_def broadcast_shapes3_def broadcast_shapes_def
        ex_data_def ex_r_def ex_pi_def Let_def)
  have k: "loss_kl (mus ?out) (logvars ?out) = Inr 1"
    using loss_kl_same_shape [of ex_logvar ex_mu]
    by (simp add: ex_out_def ex_mu_def ex_logvar_def well_formed_def numeral_2_eq_2)
  show ?thesis
    using batch_loss_components [OF f r z k, of kl_weight] by (simp add: loss_def)
qed

lemma ex_batch_loss_1:
  "batch_loss lgamma_halves ex_proportion 1 ex_pi ex_r ex_data (ex_out\<lparr>reconstructed := ex_data\<rparr>)
     = Inr ex_loss"
  by (simp add: ex_batch_loss ex_loss_def loss_kl_weighted_def)

section \<open>The loop and the trace of calls\<close>

lemma forward_modes_append: "forward_modes (xs @ ys) = forward_modes xs @ forward_modes ys"
  by (induction xs) simp_all

lemma shape_to: "shape (to dev t) = shape t"
  by (simp add: to_def)

lemma train_batch_unfold:
  "train_batch env proportion_tensor kl_weight dev st b =
     (let data = to dev (fst b);
          labels = to dev (snd b);
          out = forward env (params st) (training st) data labels
      in if shape (reconstructed out) \<noteq> shape (fst b)
         then Inl (AssertionError, st\<lparr>trace := trace st @ [ZeroGrad, Forward (training st)]\<rparr>)
         else
           (case batch_loss (lgamma env) proportion_tensor kl_weight
                   (prob_extra_zero env (params st)) (over_disp env (params st)) data out of
              Inl e \<Rightarrow> Inl (e, st\<lparr>trace := trace st @ [ZeroGrad, Forward (training st)]\<rparr>)
            | Inr l \<Rightarrow>
                Inr (st\<lparr>params := optimize env (params st) data labels proportion_tensor kl_weight,
                       trace := trace st @ [ZeroGrad, Forward (training st), Backward l, OptStep]\<rparr>,
                    l, out, labels)))"
  by (simp add: train_batch_def Let_def shape_to split: sum.splits)

lemma train_batch_trace:
  "\<exists>evs. trace (final_state (train_batch env proportion_tensor kl_weight dev st b))
           = trace st @ [ZeroGrad, Forward (training st)] @ evs
         \<and> forward_modes evs = []"
  by (simp add: train_batch_unfold Let_def final_state_def split: sum.splits)

lemma train_batch_training:
  "training (final_state (train_batch env proportion_tensor kl_weight dev st b)) = training st"
  by (simp add: train_batch_unfold Let_def final_state_def split: sum.splits)

lemma batches_loop_append:
  "batches_loop env proportion_tensor kl_weight dev st tot lv (xs @ ys) =
     (case batches_loop env proportion_tensor kl_weight dev st tot lv xs of
        Inl e \<Rightarrow> Inl e
      | Inr (st', tot', lv') \<Rightarrow> batches_loop env proportion_tensor kl_weight dev st' tot' lv' ys)"
  by (induction xs arbitrary: st tot lv) (auto split: sum.splits)

lemma batches_loop_trace:
  "\<exists>evs. trace (final_state (batches_loop env proportion_tensor kl_weight dev st tot lv bs))
           = trace st @ evs
         \<and> set (forward_modes evs) \<subseteq> {training st}
         \<and> training (final_state (batches_loop env proportion_tensor kl_weight dev st tot lv bs))
             = training st
         \<and> (isl (batches_loop env proportion_tensor kl_weight dev st tot lv bs)
             \<or> forward_modes evs = replicate (length bs) (training st))"
proof (induction bs arbitrary: st tot lv)
  case Nil
  then show ?case by (simp add: final_state_def)
next
  case (Cons b bs)
  obtain evs1 where e1:
    "trace (final_state (train_batch env proportion_tensor kl_weight dev st b))
       = trace st @ [ZeroGrad, Forward (training st)] @ evs1" "forward_modes evs1 = []"
    using train_batch_trace by blast
  show ?case
  proof (cases "train_batch env proportion_tensor kl_weight dev st b")
    case (Inl e)
    then show ?thesis
      using e1 train_batch_training [of env proportion_tensor kl_weight dev st b]
      by (intro exI [of _ "[ZeroGrad, Forward (training st)] @ evs1"])
        (simp add: forward_modes_append final_state_def)
  next
    case (Inr r)
    obtain st' l out labels where r: "r = (st', l, out, labels)"
      by (cases r) auto
    have st': "trace st' = trace st @ [ZeroGrad, Forward (training st)] @ evs1"
      "training st' = training st"
      using e1 train_batch_training [of env proportion_tensor kl_weight dev st b] Inr r
      by (simp_all add: final_state_def)
    obtain evs2 where e2:
      "trace (final_state (batches_loop env proportion_tensor kl_weight dev st' (tot + l)
           (Some (out, labels)) bs)) = trace st' @ evs2"
      "set (forward_modes evs2) \<subseteq> {training st'}"
      "training (final_state (batches_loop env proportion_tensor kl_weight dev st' (tot + l)
           (Some (out, labels)) bs)) = training st'"
      "isl (batches_loop env proportion_tensor kl_weight dev st' (tot + l) (Some (out, labels)) bs)
         \<or> forward_modes evs2 = replicate (length bs) (training st')"
      using Cons.IH [of st' "tot + l" "Some (out, labels)"] by blast
    show ?thesis
      using Inr r st' e1(2) e2
      by (intro exI [of _ "[ZeroGrad, Forward (training st)] @ evs1 @ evs2"])
        (auto simp: forward_modes_append)
  qed
qed


lemma save_trace:
  "\<exists>evs. trace (end_state (save env base_dir st f)) = trace st @ evs \<and> forward_modes evs = []"
  by (cases base_dir) (simp_all add: save_def end_state_def Let_def)

lemma save_all_trace:
  "\<exists>evs. trace (end_state (save_all env base_dir st fs)) = trace st @ evs \<and> forward_modes evs = []"
proof (induction fs arbitrary: st)
  case Nil
  then show ?case by (simp add: end_state_def)
next
  case (Cons f fs)
  obtain evs1 where e1: "trace (end_state (save env base_dir st f)) = trace st @ evs1"
    "forward_modes evs1 = []"
    using save_trace by blast
  show ?case
  proof (cases "save env base_dir st f")
    case (Inl e)
    then show ?thesis
      using e1 by (intro exI [of _ evs1]) (simp add: end_state_def)
  next
    case (Inr st')
    obtain evs2 where e2: "trace (end_state (save_all env base_dir st' fs)) = trace st' @ evs2"
      "forward_modes evs2 = []"
      using Cons.IH by blast
    show ?thesis
      using Inr e1 e2 by (intro exI [of _ "evs1 @ evs2"]) (simp add: end_state_def forward_modes_append)
  qed
qed

lemma save_final_trace:
  "\<exists>evs. trace (end_state (save_final env base_dir st out)) = trace st @ evs
         \<and> forward_modes evs = []"
proof -
  let ?fs = "[(''GMVAE_reconstructed.pt'', TensorFile (reconstructed out)),
              (''/GMVAE_mus.pt'', TensorFile (mean0 (mus out))),
              (''/GMVAE_logvars.pt'', TensorFile (mean0 (logvars out))),
              (''/GMVAE_pis.pt'', TensorFile (mean0 (pis out)))]"
  obtain evs1 where e1: "trace (end_state (save_all env base_dir st ?fs)) = trace st @ evs1"
    "forward_modes evs1 = []"
    using save_all_trace by blast
  show ?thesis
  proof (cases "save_all env base_dir st ?fs")
    case (Inl e)
    then show ?thesis
      using e1 by (intro exI [of _ evs1]) (simp add: save_final_def end_state_def)
  next
    case (Inr st1)
    let ?st2 = "st1\<lparr>training := False, trace := trace st1 @ [SetEval]\<rparr>"
    obtain evs2 where e2:
      "trace (end_state (save env base_dir ?st2 (''/GMVAE_model.pt'', StateDict (params ?st2))))
         = trace ?st2 @ evs2" "forward_modes evs2 = []"
      using save_trace by blast
    show ?thesis
      using Inr e1 e2
      by (intro exI [of _ "evs1 @ [SetEval] @ evs2"])
        (simp add: save_final_def end_state_def forward_modes_append Let_def)
  qed
qed

lemma save_periodic_trace:
  "\<exists>evs. trace (end_state (save_periodic env base_dir plot_umap mapping_dict color_map st out labels))
           = trace st @ evs
         \<and> forward_modes evs = []"
proof -
  let ?fs = "[(''/GMVAE_reconstructed.pt'', TensorFile (reconstructed out)),
              (''/GMVAE_mus.pt'', TensorFile (mean0 (mus out))),
              (''/GMVAE_logvars.pt'', TensorFile (mean0 (logvars out))),
              (''/GMVAE_pis.pt'', TensorFile (mean0 (pis out)))]"
  obtain evs1 where e1: "trace (end_state (save_all env base_dir st ?fs)) = trace st @ evs1"
    "forward_modes evs1 = []"
    using save_all_trace by blast
  show ?thesis
  proof (cases "save_all env base_dir st ?fs")
    case (Inl e)
    then show ?thesis
      using e1 by (intro exI [of _ evs1]) (simp add: save_periodic_def end_state_def)
  next
    case (Inr st1)
    let ?st2 = "st1\<lparr>training := False, trace := trace st1 @ [SetEval]\<rparr>"
    obtain evs2 where e2:
      "trace (end_state (save env base_dir ?st2 (''GMVAE_model.pt'', StateDict (params ?st2))))
         = trace ?st2 @ evs2" "forward_modes evs2 = []"
      using save_trace by blast
    show ?thesis
    proof (cases "save env base_dir ?st2 (''GMVAE_model.pt'', StateDict (params ?st2))")
      case (Inl e)
      then show ?thesis
        using Inr e1 e2
        by (intro exI [of _ "evs1 @ [SetEval] @ evs2"])
          (simp add: save_periodic_def end_state_def forward_modes_append Let_def)
    next
      case st3: (Inr st3)
      show ?thesis
      proof (cases "plot_umap")
        case False
        then show ?thesis
          using Inr st3 e1 e2
          by (intro exI [of _ "evs1 @ [SetEval] @ evs2"])
            (simp add: save_periodic_def end_state_def forward_modes_append Let_def)
      next
        case True
        show ?thesis
        proof (cases "umap_embed env mapping_dict color_map labels (reconstructed out) (zs out)")
          case (Inl e)
          then show ?thesis
            using Inr st3 True e1 e2
            by (intro exI [of _ "evs1 @ [SetEval] @ evs2"])
              (simp add: save_periodic_def end_state_def forward_modes_append Let_def)
        next
          case emb: (Inr emb)
          obtain embedding_z embedding_recon where emb2: "emb = (embedding_z, embedding_recon)"
            by (cases emb) auto
          obtain evs3 where e3:
            "trace (end_state (save_all env base_dir st3
                [(''umap_latent.png'', Figure embedding_z),
                 (''umap_recon.png'', Figure embedding_recon)])) = trace st3 @ evs3"
            "forward_modes evs3 = []"
            using save_all_trace by blast
          show ?thesis
            using Inr st3 True emb emb2 e1 e2 e3
            by (intro exI [of _ "evs1 @ [SetEval] @ evs2 @ evs3"])
              (simp add: save_periodic_def end_state_def forward_modes_append Let_def)
        qed
      qed
    qed
  qed
qed

lemma after_loop_trace:
  "\<exists>evs. trace (final_state (after_loop env epoch mapping_dict color_map max_epochs base_dir
              plot_umap st tot lv)) = trace st @ evs
         \<and> forward_modes evs = []"
proof (cases lv)
  case None
  then show ?thesis
    by (simp add: after_loop_def final_state_def)
next
  case (Some ol)
  obtain out labels where ol: "ol = (out, labels)"
    by (cases ol) auto
  obtain evp where ep:
    "trace (end_state (save_periodic env base_dir plot_umap mapping_dict color_map st out labels))
       = trace st @ evp" "forward_modes evp = []"
    using save_periodic_trace by blast
  obtain evf where ef:
    "trace (end_state (save_final env base_dir st out)) = trace st @ evf" "forward_modes evf = []"
    using save_final_trace by blast
  show ?thesis
  proof (cases "checkpoint_branch epoch max_epochs")
    case Periodic
    then show ?thesis
      using Some ol ep
      by (intro exI [of _ evp])
        (auto simp: after_loop_def final_state_def end_state_def split: sum.splits)
  next
    case Final
    then show ?thesis
      using Some ol ef
      by (intro exI [of _ evf])
        (auto simp: after_loop_def final_state_def end_state_def split: sum.splits)
  next
    case NoSave
    then show ?thesis
      using Some ol by (simp add: after_loop_def final_state_def)
  qed
qed

lemma after_loop_value:
  "after_loop env epoch mapping_dict color_map max_epochs base_dir plot_umap st tot lv
     = Inr (st', v) \<Longrightarrow> v = tot"
  by (auto simp: after_loop_def split: option.splits branch.splits sum.splits)

lemma batches_loop_total:
  "training st \<Longrightarrow>
   batches_loop env proportion_tensor kl_weight dev st tot lv bs = Inr (st', tot', lv') \<Longrightarrow>
   tot' = tot + sum_list (epoch_losses env proportion_tensor kl_weight dev (params st) bs)"
proof (induction bs arbitrary: st tot lv)
  case Nil
  then show ?case by simp
next
  case (Cons b bs)
  let ?data = "to dev (fst b)" and ?labels = "to dev (snd b)"
  let ?out = "forward env (params st) True ?data ?labels"
  obtain st1 l out labels where
    step: "train_batch env proportion_tensor kl_weight dev st b = Inr (st1, l, out, labels)"
    and rest: "batches_loop env proportion_tensor kl_weight dev st1 (tot + l)
      (Some (out, labels)) bs = Inr (st', tot', lv')"
    using Cons.prems(2) by (auto split: sum.splits)
  have l: "batch_loss (lgamma env) proportion_tensor kl_weight (prob_extra_zero env (params st))
      (over_disp env (params st)) ?data ?out = Inr l"
    and st1: "params st1 = optimize env (params st) ?data ?labels proportion_tensor kl_weight"
      "training st1"
    using step Cons.prems(1)
    by (auto simp: train_batch_unfold Let_def split: if_splits sum.splits)
  from Cons.IH [OF st1(2) rest] show ?case
    using l st1(1) by (simp add: Let_def add.assoc)
qed

lemma train_GMVAE_unfold:
  "train_GMVAE env st epoch dataloader proportion_tensor kl_weight mapping_dict color_map
       max_epochs dev base_dir plot_umap =
     (if base_dir = PyNone \<or> \<not> (is_PyStr base_dir \<or> is_PyPath base_dir)
      then Inl (AssertionError, st)
      else case batches_loop env proportion_tensor kl_weight dev (entry_state dev st) 0 None
                  dataloader of
             Inl e \<Rightarrow> Inl e
           | Inr (st3, total_loss, lv) \<Rightarrow>
               after_loop env epoch mapping_dict color_map max_epochs base_dir plot_umap
                 st3 total_loss lv)"
  by (simp add: train_GMVAE_def entry_state_def Let_def)

lemma train_GMVAE_trace:
  "\<exists>evs. trace (final_state (train_GMVAE env st epoch dataloader proportion_tensor kl_weight
              mapping_dict color_map max_epochs dev base_dir plot_umap)) = trace st @ evs
     \<and> set (forward_modes evs) \<subseteq> {True}
     \<and> (isl (train_GMVAE env st epoch dataloader proportion_tensor kl_weight
              mapping_dict color_map max_epochs dev base_dir plot_umap)
         \<or> forward_modes evs = replicate (length dataloader) True)
     \<and> (base_dir = PyNone \<or> \<not> (is_PyStr base_dir \<or> is_PyPath base_dir)
         \<or> (\<exists>evs'. evs = [SetTrain, ModelTo dev] @ evs'
               \<and> (dataloader = [] \<or> (\<exists>evs''. evs' = [ZeroGrad, Forward True] @ evs''))))"
proof (cases "base_dir = PyNone \<or> \<not> (is_PyStr base_dir \<or> is_PyPath base_dir)")
  case True
  then show ?thesis
    by (intro exI [of _ "[]"]) (auto simp: train_GMVAE_unfold final_state_def)
next
  case False
  let ?st2 = "entry_state dev st"
  let ?L = "batches_loop env proportion_tensor kl_weight dev ?st2 0 None dataloader"
  have st2: "trace ?st2 = trace st @ [SetTrain, ModelTo dev]" "training ?st2"
    by (simp_all add: entry_state_def)
  obtain evs1 where e1: "trace (final_state ?L) = trace ?st2 @ evs1"
    "set (forward_modes evs1) \<subseteq> {training ?st2}"
    "isl ?L \<or> forward_modes evs1 = replicate (length dataloader) (training ?st2)"
    using batches_loop_trace [of env proportion_tensor kl_weight dev ?st2 0 None dataloader]
    by blast
  have first: "dataloader = [] \<or> (\<exists>evs''. evs1 = [ZeroGrad, Forward True] @ evs'')"
  proof (cases dataloader)
    case Nil
    then show ?thesis by simp
  next
    case (Cons b bs)
    obtain evb where eb:
      "trace (final_state (train_batch env proportion_tensor kl_weight dev ?st2 b))
         = trace ?st2 @ [ZeroGrad, Forward (training ?st2)] @ evb"
      using train_batch_trace by blast
    show ?thesis
    proof (cases "train_batch env proportion_tensor kl_weight dev ?st2 b")
      case (Inl e)
      then have "trace (final_state ?L) = trace ?st2 @ [ZeroGrad, Forward True] @ evb"
        using eb Cons st2(2) by (simp add: final_state_def)
      then show ?thesis
        using e1(1) by auto
    next
      case (Inr r)
      obtain st' l out labels where r: "r = (st', l, out, labels)"
        by (cases r) auto
      have st': "trace st' = trace ?st2 @ [ZeroGrad, Forward True] @ evb"
        using eb Inr r st2(2) by (simp add: final_state_def)
      obtain evr where er:
        "trace (final_state (batches_loop env proportion_tensor kl_weight dev st' (0 + l)
            (Some (out, labels)) bs)) = trace st' @ evr"
        using batches_loop_trace [of env proportion_tensor kl_weight dev st' "0 + l"
            "Some (out, labels)" bs] by blast
      have "trace (final_state ?L) = trace ?st2 @ [ZeroGrad, Forward True] @ evb @ evr"
        using Cons Inr r st' er by simp
      then show ?thesis
        using e1(1) by auto
    qed
  qed
  show ?thesis
  proof (cases ?L)
    case (Inl e)
    then show ?thesis
      using False e1 st2 first
      by (intro exI [of _ "[SetTrain, ModelTo dev] @ evs1"])
        (auto simp: train_GMVAE_unfold forward_modes_append final_state_def)
  next
    case (Inr r)
    obtain st3 total_loss lv where r: "r = (st3, total_loss, lv)"
      by (cases r) auto
    have st3: "trace st3 = trace ?st2 @ evs1"
      "forward_modes evs1 = replicate (length dataloader) True"
      using e1 Inr r st2(2) by (simp_all add: final_state_def)
    obtain evs2 where e2:
      "trace (final_state (after_loop env epoch mapping_dict color_map max_epochs base_dir
          plot_umap st3 total_loss lv)) = trace st3 @ evs2" "forward_modes evs2 = []"
      using after_loop_trace by blast
    show ?thesis
      using False Inr r st2 st3 e2 first
      by (intro exI [of _ "[SetTrain, ModelTo dev] @ evs1 @ evs2"])
        (auto simp: train_GMVAE_unfold forward_modes_append)
  qed
qed


lemma train_GMVAE_value:
  assumes "train_GMVAE env st epoch dataloader proportion_tensor kl_weight mapping_dict color_map
       max_epochs dev base_dir plot_umap = Inr (st', v)"
  shows "v = sum_list (epoch_losses env proportion_tensor kl_weight dev (params st) dataloader)"
proof -
  let ?st2 = "entry_state dev st"
  from assms obtain st3 tl lv where
    loop: "batches_loop env proportion_tensor kl_weight dev ?st2 0 None dataloader = Inr (st3, tl, lv)"
    and after: "after_loop env epoch mapping_dict color_map max_epochs base_dir plot_umap st3 tl lv
           = Inr (st', v)"
    by (auto simp: train_GMVAE_unfold split: if_splits sum.splits)
  have "training ?st2" "params ?st2 = params st"
    by (simp_all add: entry_state_def)
  then have "tl = 0 + sum_list (epoch_losses env proportion_tensor kl_weight dev (params st) dataloader)"
    using batches_loop_total [OF _ loop] by simp
  then show ?thesis
    using after_loop_value [OF after] by simp
qed

lemma train_GMVAE_empty_loader:
  "is_PyStr base_dir \<or> is_PyPath base_dir \<Longrightarrow>
   train_GMVAE env st epoch [] proportion_tensor kl_weight mapping_dict color_map
       max_epochs dev base_dir plot_umap = Inl (UnboundLocalError, entry_state dev st)"
  by (auto simp: train_GMVAE_unfold after_loop_def)


subsection \<open>Runs of the example model\<close>

lemma ex_env_train_batch:
  "train_batch ex_env ex_proportion 1 ''cuda'' st ex_batch =
     Inr (st\<lparr>params := Suc (params st),
             trace := trace st @ [ZeroGrad, Forward (training st), Backward ex_loss, OptStep]\<rparr>,
          ex_loss, ex_out\<lparr>reconstructed := ex_data\<rparr>, to ''cuda'' ex_labels)"
  by (simp add: train_batch_unfold Let_def ex_env_def ex_batch_def to_ex_data ex_batch_loss_1)

lemma ex_env_epoch_returns:
  "\<exists>st'. train_GMVAE ex_env st 10 [ex_batch, ex_batch] ex_proportion 1 [] [] 50 ''cuda''
      (PyStr ''out'') False = Inr (st', ex_loss + ex_loss)"
  by (simp add: train_GMVAE_unfold ex_env_train_batch after_loop_def checkpoint_branch_def)

section \<open>Checkpoint schedule\<close>

text \<open>
  C5. After the loop the periodic branch is taken exactly when \<open>(epoch + 1) mod 10 = 0\<close> and
  \<open>epoch \<noteq> max_epochs - 1\<close>, the final branch exactly when \<open>epoch = max_epochs - 1\<close>, and
  never both; epoch 9 of 50 is periodic, epoch 49 of 50 is final, epoch 9 of 10 is final only.
  The code after the loop runs the periodic save, the final save or neither accordingly.
\<close>

theorem checkpoint_branch_conditions:
  "(checkpoint_branch epoch max_epochs = Periodic
      \<longleftrightarrow> (epoch + 1) mod 10 = 0 \<and> epoch \<noteq> max_epochs - 1)
   \<and> (checkpoint_branch epoch max_epochs = Final \<longleftrightarrow> epoch = max_epochs - 1)
   \<and> \<not> (checkpoint_branch epoch max_epochs = Periodic \<and> checkpoint_branch epoch max_epochs = Final)
   \<and> checkpoint_branch 9 50 = Periodic
   \<and> checkpoint_branch 49 50 = Final
   \<and> checkpoint_branch 9 10 = Final
   \<and> after_loop env epoch mapping_dict color_map max_epochs base_dir plot_umap st total_loss
        (Some (out, labels)) =
       (if (epoch + 1) mod 10 = 0 \<and> epoch \<noteq> max_epochs - 1
        then (case save_periodic env base_dir plot_umap mapping_dict color_map st out labels of
                Inl e \<Rightarrow> Inl e | Inr st' \<Rightarrow> Inr (st', total_loss))
        else if epoch = max_epochs - 1
        then (case save_final env base_dir st out of
                Inl e \<Rightarrow> Inl e | Inr st' \<Rightarrow> Inr (st', total_loss))
        else Inr (st, total_loss))"
  by (simp add: checkpoint_branch_def after_loop_def)

section \<open>KL term\<close>

text \<open>
  C2. The raw KL term is \<open>0.5 * sum (- 1 - logvar + mu\<^sup>2 + exp logvar) / 1e9\<close> over the entries
  of the shape \<^verbatim>\<open>logvars\<close> and \<^verbatim>\<open>mus\<close> broadcast to (for tensors of one shape: over their
  entries); the weighted term is the raw term times \<open>kl_weight\<close>, replaced by exactly \<open>1\<close>
  whenever the product exceeds \<open>1\<close> and passed through unchanged when the product is at most
  \<open>1\<close>; the batch loss uses this clamped term.
\<close>

theorem kl_term_clamped:
  "loss_kl mu logvar =
     (case broadcast_shapes (shape logvar) (shape mu) of
        None \<Rightarrow> Inl RuntimeError
      | Some T \<Rightarrow>
          Inr (0.5 * sum_list (map2 (\<lambda>lv m. - 1 - lv + m\<^sup>2 + exp lv)
                                (broadcast_to T logvar) (broadcast_to T mu)) / 1000000000))
   \<and> (shape logvar = shape mu \<and> well_formed logvar \<and> well_formed mu \<longrightarrow>
      loss_kl mu logvar =
        Inr (0.5 * (\<Sum>i<length (vals mu).
                      - 1 - vals logvar ! i + (vals mu ! i)\<^sup>2 + exp (vals logvar ! i))
             / 1000000000))
   \<and> (kl * kl_weight > 1 \<longrightarrow> loss_kl_weighted kl kl_weight = 1)
   \<and> (kl * kl_weight \<le> 1 \<longrightarrow> loss_kl_weighted kl kl_weight = kl * kl_weight)
   \<and> (fraction_loss out proportion_tensor = Inr f
        \<and> loss_recon out data = Inr r
        \<and> zinb_loss lg data (reconstructed out) pez od eps_default = Inr z
        \<and> loss_kl (mus out) (logvars out) = Inr k \<longrightarrow>
      batch_loss lg proportion_tensor kl_weight pez od data out =
        Inr (loss r z f (loss_kl_weighted k kl_weight)))"
proof -
  have general: "loss_kl mu logvar =
     (case broadcast_shapes (shape logvar) (shape mu) of
        None \<Rightarrow> Inl RuntimeError
      | Some T \<Rightarrow>
          Inr (0.5 * sum_list (map2 (\<lambda>lv m. - 1 - lv + m\<^sup>2 + exp lv)
                                (broadcast_to T logvar) (broadcast_to T mu)) / 1000000000))"
    by (simp add: loss_kl_def split: option.splits)
  have clamp: "(kl * kl_weight > 1 \<longrightarrow> loss_kl_weighted kl kl_weight = 1)
      \<and> (kl * kl_weight \<le> 1 \<longrightarrow> loss_kl_weighted kl kl_weight = kl * kl_weight)"
    by (simp add: loss_kl_weighted_def Let_def)
  show ?thesis
    using general clamp loss_kl_same_shape [of logvar mu]
      batch_loss_components [of out proportion_tensor f data r lg pez od z k kl_weight]
    by blast
qed

text \<open>
  At \<open>mu = [20000, 40000]\<close> and \<open>logvar = [0, 0]\<close> the raw term is exactly \<open>1\<close>: weight \<open>2\<close>
  is clamped to \<open>1\<close>, weight \<open>1/2\<close> passes through, and at the crossing point (weight \<open>1\<close>,
  product \<open>1\<close>) the product passes through unchanged.
\<close>

theorem kl_term_clamped_witness:
  "shape ex_logvar = shape ex_mu
   \<and> well_formed ex_logvar
   \<and> well_formed ex_mu
   \<and> loss_kl ex_mu ex_logvar = Inr 1
   \<and> (1 :: real) * 2 > 1
   \<and> loss_kl_weighted 1 2 = 1
   \<and> (1 :: real) * (1 / 2) \<le> 1
   \<and> loss_kl_weighted 1 (1 / 2) = 1 / 2
   \<and> (1 :: real) * 1 \<le> 1
   \<and> loss_kl_weighted 1 1 = 1"
proof -
  have sh: "shape ex_logvar = shape ex_mu" "well_formed ex_logvar" "well_formed ex_mu"
    by (simp_all add: ex_mu_def ex_logvar_def well_formed_def)
  have "loss_kl ex_mu ex_logvar =
      Inr (0.5 * (\<Sum>i<length (vals ex_mu).
               - 1 - vals ex_logvar ! i + (vals ex_mu ! i)\<^sup>2 + exp (vals ex_logvar ! i))
        / 1000000000)"
    using kl_term_clamped [where logvar = ex_logvar and mu = ex_mu] sh by blast
  then have kl: "loss_kl ex_mu ex_logvar = Inr 1"
    by (simp add: ex_mu_def ex_logvar_def numeral_2_eq_2)
  have above: "loss_kl_weighted 1 2 = 1"
    using kl_term_clamped [where kl = 1 and kl_weight = 2] by simp
  have below: "loss_kl_weighted 1 (1 / 2) = 1 / 2"
    using kl_term_clamped [where kl = 1 and kl_weight = "1 / 2"] by simp
  have crossing: "loss_kl_weighted 1 1 = 1"
    using kl_term_clamped [where kl = 1 and kl_weight = 1] by simp
  show ?thesis
    by (simp add: sh kl above below crossing)
qed

section \<open>ZINB loss: the negative binomial term\<close>

text \<open>
  C3, as the code has it. At every entry the negative binomial term is
  \<open>lgamma (y + r + eps) - lgamma (r + eps) - lgamma (y + 1) + r * log (pi + eps)
  + y * log (1 - (pi + eps))\<close>: \<^verbatim>\<open>eps\<close> enters four of the five terms, and \<open>lgamma (y + 1)\<close> is
  evaluated at \<open>y + 1\<close> itself. At \<open>eps = 0\<close> this is the plain log-gamma identity.
  \<^verbatim>\<open>zinb_loss\<close> applies the term at every entry of the shape its operands broadcast to (and
  raises when they do not broadcast), and \<^verbatim>\<open>eps\<close> defaults to \<open>1e-10\<close>.
\<close>

theorem nb_case_formula:
  "nb_case lg y r p eps =
     lg (y + r + eps) - lg (r + eps) - lg (y + 1) + r * ln (p + eps) + y * ln (1 - (p + eps))
   \<and> nb_case lg y r p 0 = lg (y + r) - lg r - lg (y + 1) + r * ln p + y * ln (1 - p)
   \<and> zinb_loss lg y_true y_pred pi_t r_t eps =
       (case broadcast_shapes3 (shape y_true) (shape r_t) (shape pi_t) of
          None \<Rightarrow> Inl RuntimeError
        | Some T \<Rightarrow>
            Inr (- mean (map (\<lambda>i. zero_case (broadcast_to T y_true ! i) (broadcast_to T r_t ! i)
                                      (broadcast_to T pi_t ! i) eps
                                  + nb_case lg (broadcast_to T y_true ! i) (broadcast_to T r_t ! i)
                                      (broadcast_to T pi_t ! i) eps)
                           [0..<prod_list T])))
   \<and> eps_default = 1 / 10000000000"
  by (simp add: nb_case_def zinb_loss_def Let_def eps_default_def split: option.splits)

text \<open>
  The claim as written, with every term stabilised, fails: at \<open>y = 1\<close>, \<open>r = 1\<close>,
  \<open>pi = 1/4\<close>, \<open>eps = 1/2\<close> the code subtracts \<open>lgamma 2 = 0\<close> where the stabilised term
  would subtract \<open>lgamma (5/2) = ln (3 * sqrt pi / 4)\<close>.
\<close>

theorem nb_case_not_all_stabilised:
  "nb_case lgamma_halves 1 1 (1 / 4) (1 / 2)
     \<noteq> nb_case_stabilised lgamma_halves 1 1 (1 / 4) (1 / 2)"
proof -
  have "nb_case_stabilised lgamma_halves 1 1 (1 / 4) (1 / 2)
          - nb_case lgamma_halves 1 1 (1 / 4) (1 / 2)
        = lgamma_halves 2 - lgamma_halves (5 / 2)"
    by (simp add: nb_case_def nb_case_stabilised_def)
  also have "\<dots> = - lgamma_halves (5 / 2)"
    by (simp add: lgamma_halves_def)
  finally show ?thesis
    using lgamma_halves_5_2 by auto
qed

section \<open>ZINB loss: the zero-inflation term and the mean\<close>

text \<open>
  C4, as the code has it. The zero-inflation term is applied at the entries with
  \<open>y_true < eps\<close>, where it is \<open>- log (zero_nb + (1 - zero_nb) * exp (- r * log (1 - pi + eps)))\<close>
  with \<open>zero_nb = pi powr r\<close>, and it is exactly zero at every entry with \<open>y_true \<ge> eps\<close>;
  for a count \<open>k\<close> and \<open>0 < eps \<le> 1\<close> the test \<open>k < eps\<close> holds exactly when \<open>k = 0\<close>. The
  value of \<^verbatim>\<open>zinb_loss\<close> is the negative mean over all entries of the zero-inflation term plus
  the negative binomial term, the latter added at every entry, the zero entries included;
  the entries are those of the shape the operands broadcast to.
\<close>

theorem zero_inflation_term:
  "(y < eps \<longrightarrow>
      zero_case y r p eps = - ln (zero_nb p r + (1 - zero_nb p r) * exp (- r * ln (1 - p + eps))))
   \<and> (eps \<le> y \<longrightarrow> zero_case y r p eps = 0)
   \<and> zero_nb p r = p powr r
   \<and> (0 < eps \<and> eps \<le> 1 \<longrightarrow> (real k < eps \<longleftrightarrow> k = 0))
   \<and> (broadcast_shapes3 (shape y_true) (shape r_t) (shape pi_t) = Some T \<longrightarrow>
      zinb_loss lg y_true y_pred pi_t r_t eps =
        Inr (- ((\<Sum>i<prod_list T.
                  zero_case (broadcast_to T y_true ! i) (broadcast_to T r_t ! i)
                    (broadcast_to T pi_t ! i) eps
                  + nb_case lg (broadcast_to T y_true ! i) (broadcast_to T r_t ! i)
                    (broadcast_to T pi_t ! i) eps)
               / real (prod_list T))))
   \<and> (broadcast_shapes3 (shape y_true) (shape r_t) (shape pi_t) = None \<longrightarrow>
      zinb_loss lg y_true y_pred pi_t r_t eps = Inl RuntimeError)"
proof -
  have count: "0 < eps \<and> eps \<le> 1 \<longrightarrow> (real k < eps \<longleftrightarrow> k = 0)"
    by (cases k) auto
  have whole: "broadcast_shapes3 (shape y_true) (shape r_t) (shape pi_t) = Some T \<longrightarrow>
      zinb_loss lg y_true y_pred pi_t r_t eps =
        Inr (- ((\<Sum>i<prod_list T.
                  zero_case (broadcast_to T y_true ! i) (broadcast_to T r_t ! i)
                    (broadcast_to T pi_t ! i) eps
                  + nb_case lg (broadcast_to T y_true ! i) (broadcast_to T r_t ! i)
                    (broadcast_to T pi_t ! i) eps)
               / real (prod_list T)))"
    by (simp add: zinb_loss_def Let_def mean_def sum_list_map_upt_lessThan)
  have none: "broadcast_shapes3 (shape y_true) (shape r_t) (shape pi_t) = None \<longrightarrow>
      zinb_loss lg y_true y_pred pi_t r_t eps = Inl RuntimeError"
    by (simp add: zinb_loss_def)
  show ?thesis
    using count whole none by (simp add: zero_case_def zero_nb_def)
qed

text \<open>
  With \<open>eps = 1/4\<close>, \<open>pi = 1/2\<close>, \<open>r = 1\<close>: the entry \<open>0\<close> gets \<open>- ln (7/6)\<close>, the entry \<open>2\<close>
  gets \<open>0\<close>, and both get the negative binomial term. Per-feature parameters of shape \<open>(2)\<close>
  broadcast against counts of shape \<open>(1, 2)\<close>; parameters of shape \<open>(3)\<close> do not.
\<close>

theorem zero_inflation_term_witness:
  "(0 :: real) < 1 / 4
   \<and> zero_case 0 1 (1 / 2) (1 / 4) = - ln (7 / 6)
   \<and> (1 / 4 :: real) \<le> 2
   \<and> zero_case 2 1 (1 / 2) (1 / 4) = 0
   \<and> real (0 :: nat) < 1 / 4
   \<and> \<not> real (2 :: nat) < 1 / 4
   \<and> broadcast_shapes3 (shape ex_counts) (shape ex_r) (shape ex_pi) = Some [1, 2]
   \<and> zinb_loss lgamma_halves ex_counts ex_counts ex_pi ex_r (1 / 4) =
       Inr (- ((zero_case 0 1 (1 / 2) (1 / 4) + nb_case lgamma_halves 0 1 (1 / 2) (1 / 4)
                + (zero_case 2 1 (1 / 2) (1 / 4) + nb_case lgamma_halves 2 1 (1 / 2) (1 / 4))) / 2))
   \<and> broadcast_shapes3 (shape ex_counts) (shape ex_r) (shape ex_proportion3) = None
   \<and> zinb_loss lgamma_halves ex_counts ex_counts ex_proportion3 ex_r (1 / 4) = Inl RuntimeError"
proof -
  have "zero_case 0 1 (1 / 2) (1 / 4) =
      - ln (zero_nb (1 / 2) 1 + (1 - zero_nb (1 / 2) 1) * exp (- 1 * ln (1 - 1 / 2 + 1 / 4)))"
    and nb: "zero_nb (1 / 2) 1 = (1 / 2) powr 1"
    using zero_inflation_term [where y = 0 and eps = "1 / 4" and r = 1 and p = "1 / 2"] by simp_all
  then have at_zero: "zero_case 0 1 (1 / 2) (1 / 4) = - ln (7 / 6)"
    by (simp add: exp_minus)
  have at_two: "zero_case 2 1 (1 / 2) (1 / 4) = 0"
    using zero_inflation_term [where y = 2 and eps = "1 / 4" and r = 1 and p = "1 / 2"] by simp
  have counts: "real (0 :: nat) < 1 / 4" "\<not> real (2 :: nat) < 1 / 4"
    using zero_inflation_term [where eps = "1 / 4" and k = 0]
      zero_inflation_term [where eps = "1 / 4" and k = 2]
    by simp_all
  have sh: "broadcast_shapes3 (shape ex_counts) (shape ex_r) (shape ex_pi) = Some [1, 2]"
    by (simp add: broadcast_shapes3_def broadcast_shapes_def ex_counts_def ex_r_def ex_pi_def)
  have bc: "broadcast_to [1, 2] ex_counts = [0, 2]" "broadcast_to [1, 2] ex_r = [1, 1]"
    "broadcast_to [1, 2] ex_pi = [1 / 2, 1 / 2]"
    by (simp_all add: broadcast_to_def ex_counts_def ex_r_def ex_pi_def upt_rec)
  have "zinb_loss lgamma_halves ex_counts ex_counts ex_pi ex_r (1 / 4) =
        Inr (- ((\<Sum>i<prod_list [1, 2].
                  zero_case (broadcast_to [1, 2] ex_counts ! i) (broadcast_to [1, 2] ex_r ! i)
                    (broadcast_to [1, 2] ex_pi ! i) (1 / 4)
                  + nb_case lgamma_halves (broadcast_to [1, 2] ex_counts ! i)
                    (broadcast_to [1, 2] ex_r ! i) (broadcast_to [1, 2] ex_pi ! i) (1 / 4))
               / real (prod_list [1, 2])))"
    using zero_inflation_term [where lg = lgamma_halves and y_true = ex_counts and y_pred = ex_counts
        and pi_t = ex_pi and r_t = ex_r and eps = "1 / 4" and T = "[1, 2]"] sh
    by blast
  then have whole: "zinb_loss lgamma_halves ex_counts ex_counts ex_pi ex_r (1 / 4) =
       Inr (- ((zero_case 0 1 (1 / 2) (1 / 4) + nb_case lgamma_halves 0 1 (1 / 2) (1 / 4)
                + (zero_case 2 1 (1 / 2) (1 / 4) + nb_case lgamma_halves 2 1 (1 / 2) (1 / 4))) / 2))"
    by (simp only: bc, simp add: numeral_2_eq_2)
  have sh3: "broadcast_shapes3 (shape ex_counts) (shape ex_r) (shape ex_proportion3) = None"
    by (simp add: broadcast_shapes3_def broadcast_shapes_def ex_counts_def ex_r_def
        ex_proportion3_def)
  then have raises: "zinb_loss lgamma_halves ex_counts ex_counts ex_proportion3 ex_r (1 / 4)
      = Inl RuntimeError"
    using zero_inflation_term [where lg = lgamma_halves and y_true = ex_counts and y_pred = ex_counts
        and pi_t = ex_proportion3 and r_t = ex_r and eps = "1 / 4"]
    by blast
  show ?thesis
    using at_zero at_two counts sh whole sh3 raises by simp
qed

text \<open>
  The formula of the claim, without \<^verbatim>\<open>eps\<close> inside the logarithm, gives \<open>- ln (3/2)\<close> at that
  zero entry, not the code's \<open>- ln (7/6)\<close>.
\<close>

theorem zero_case_not_unstabilised:
  "zero_case 0 1 (1 / 2) (1 / 4) \<noteq> zero_case_unstabilised 0 1 (1 / 2)"
proof -
  have a: "zero_case 0 1 (1 / 2) (1 / 4) = - ln (7 / 6)"
    by (simp add: zero_case_def zero_nb_def exp_minus)
  have b: "zero_case_unstabilised 0 1 (1 / 2) = - ln (3 / 2)"
    by (simp add: zero_case_unstabilised_def zero_nb_def exp_minus)
  have "ln (7 / 6 :: real) \<noteq> ln (3 / 2)" by simp
  with a b show ?thesis by simp
qed

section \<open>Composite loss of a batch\<close>

text \<open>
  C1. The loss of a batch is \<open>recon_loss * 5 + zinb_val + fraction_loss * 10 + kl_weighted\<close>,
  where \<open>recon_loss\<close> is the mean squared error between the reconstruction and the input
  features, and \<open>fraction_loss\<close> the mean squared error between the mean of \<open>pis\<close> over the
  sample axis and the target proportions moved to the device of \<open>pis\<close> (same entries, same
  shape); every loss value the code computes is such a sum. The mean squared error of two
  tensors of one shape is the sum of the squared differences of their entries over their
  number; the mean over the sample axis of an \<open>n\<close> by \<open>k\<close> tensor has entry \<open>j\<close> equal to the
  sum of the entries \<open>(i, j)\<close> over \<open>n\<close>.
  For \<open>recon = 0.2\<close>, \<open>zinb = 1.5\<close>, \<open>fraction = 0.05\<close>, \<open>kl_weighted = 0.3\<close> the total is \<open>3.3\<close>.
\<close>

theorem composite_loss_formula:
  "(mse_loss (reconstructed out) data = Inr r
      \<and> zinb_loss lg data (reconstructed out) pez od eps_default = Inr z
      \<and> mse_loss (mean0 (pis out)) (to (device (pis out)) proportion_tensor) = Inr f
      \<and> loss_kl (mus out) (logvars out) = Inr k \<longrightarrow>
    batch_loss lg proportion_tensor kl_weight pez od data out =
      Inr (r * 5 + z + f * 10 + loss_kl_weighted k kl_weight))
   \<and> (batch_loss lg proportion_tensor kl_weight pez od data out = Inr l \<longrightarrow>
       (\<exists>r z f k. mse_loss (reconstructed out) data = Inr r
          \<and> zinb_loss lg data (reconstructed out) pez od eps_default = Inr z
          \<and> mse_loss (mean0 (pis out)) (to (device (pis out)) proportion_tensor) = Inr f
          \<and> loss_kl (mus out) (logvars out) = Inr k
          \<and> l = r * 5 + z + f * 10 + loss_kl_weighted k kl_weight))
   \<and> loss_recon out data = mse_loss (reconstructed out) data
   \<and> fraction_loss out proportion_tensor
       = mse_loss (mean0 (pis out)) (to (device (pis out)) proportion_tensor)
   \<and> device (to (device (pis out)) proportion_tensor) = device (pis out)
   \<and> vals (to (device (pis out)) proportion_tensor) = vals proportion_tensor
   \<and> shape (to (device (pis out)) proportion_tensor) = shape proportion_tensor
   \<and> (shape a = shape b \<and> well_formed a \<and> well_formed b \<longrightarrow>
        mse_loss a b
          = Inr ((\<Sum>i<length (vals a). (vals a ! i - vals b ! i)\<^sup>2) / real (length (vals a))))
   \<and> (shape (pis out) = [n, k'] \<longrightarrow>
        shape (mean0 (pis out)) = [k']
        \<and> vals (mean0 (pis out))
            = map (\<lambda>j. (\<Sum>i<n. vals (pis out) ! (i * k' + j)) / real n) [0..<k'])
   \<and> loss 0.2 1.5 0.05 0.3 = 3.3"
proof -
  have fr: "fraction_loss out proportion_tensor
       = mse_loss (mean0 (pis out)) (to (device (pis out)) proportion_tensor)"
    and re: "loss_recon out data = mse_loss (reconstructed out) data"
    by (simp_all add: fraction_loss_def loss_recon_def Let_def)
  have forward: "mse_loss (reconstructed out) data = Inr r
      \<and> zinb_loss lg data (reconstructed out) pez od eps_default = Inr z
      \<and> mse_loss (mean0 (pis out)) (to (device (pis out)) proportion_tensor) = Inr f
      \<and> loss_kl (mus out) (logvars out) = Inr k \<longrightarrow>
    batch_loss lg proportion_tensor kl_weight pez od data out =
      Inr (r * 5 + z + f * 10 + loss_kl_weighted k kl_weight)"
    using batch_loss_components [of out proportion_tensor f data r lg pez od z k kl_weight]
    by (simp add: fr re loss_def)
  have backward: "batch_loss lg proportion_tensor kl_weight pez od data out = Inr l \<longrightarrow>
       (\<exists>r z f k. mse_loss (reconstructed out) data = Inr r
          \<and> zinb_loss lg data (reconstructed out) pez od eps_default = Inr z
          \<and> mse_loss (mean0 (pis out)) (to (device (pis out)) proportion_tensor) = Inr f
          \<and> loss_kl (mus out) (logvars out) = Inr k
          \<and> l = r * 5 + z + f * 10 + loss_kl_weighted k kl_weight)"
  proof
    assume "batch_loss lg proportion_tensor kl_weight pez od data out = Inr l"
    from batch_loss_Inr [OF this] show "\<exists>r z f k. mse_loss (reconstructed out) data = Inr r
          \<and> zinb_loss lg data (reconstructed out) pez od eps_default = Inr z
          \<and> mse_loss (mean0 (pis out)) (to (device (pis out)) proportion_tensor) = Inr f
          \<and> loss_kl (mus out) (logvars out) = Inr k
          \<and> l = r * 5 + z + f * 10 + loss_kl_weighted k kl_weight"
      by (auto simp: fr re loss_def)
  qed
  have mse: "shape a = shape b \<and> well_formed a \<and> well_formed b \<longrightarrow>
        mse_loss a b
          = Inr ((\<Sum>i<length (vals a). (vals a ! i - vals b ! i)\<^sup>2) / real (length (vals a)))"
    using mse_loss_same_shape by blast
  have m0: "shape (pis out) = [n, k'] \<longrightarrow>
        shape (mean0 (pis out)) = [k']
        \<and> vals (mean0 (pis out))
            = map (\<lambda>j. (\<Sum>i<n. vals (pis out) ! (i * k' + j)) / real n) [0..<k']"
    by (simp add: mean0_def Let_def sum_list_map_upt_lessThan)
  have ex: "loss 0.2 1.5 0.05 0.3 = 3.3"
    by (simp add: loss_def)
  show ?thesis
    using forward backward fr re mse m0 ex by (simp add: to_def)
qed

text \<open>
  A batch of two samples and two features: the mean of \<open>pis\<close> is \<open>[3/10, 7/10]\<close>, its squared
  error against \<open>[1/2, 1/2]\<close> is \<open>1/25\<close>, the reconstruction error is \<open>1/2\<close>, the KL term is
  clamped to \<open>1\<close>.
\<close>

theorem composite_loss_formula_witness:
  "shape (pis ex_out) = [2, 2]
   \<and> vals (mean0 (pis ex_out)) = [3 / 10, 7 / 10]
   \<and> device (to (device (pis ex_out)) ex_proportion) = ''cuda''
   \<and> shape (mean0 (pis ex_out)) = shape (to (device (pis ex_out)) ex_proportion)
   \<and> well_formed (mean0 (pis ex_out))
   \<and> well_formed (to (device (pis ex_out)) ex_proportion)
   \<and> mse_loss (mean0 (pis ex_out)) (to (device (pis ex_out)) ex_proportion) = Inr (1 / 25)
   \<and> shape (reconstructed ex_out) = shape ex_data
   \<and> well_formed (reconstructed ex_out)
   \<and> well_formed ex_data
   \<and> mse_loss (reconstructed ex_out) ex_data = Inr (1 / 2)
   \<and> loss_kl (mus ex_out) (logvars ex_out) = Inr 1
   \<and> zinb_loss lgamma_halves ex_data (reconstructed ex_out) ex_pi ex_r eps_default
       = Inr ex_zinb
   \<and> batch_loss lgamma_halves ex_proportion 1 ex_pi ex_r ex_data ex_out
       = Inr (1 / 2 * 5 + ex_zinb + 1 / 25 * 10 + 1)"
proof -
  note inst = composite_loss_formula [where out = ex_out and proportion_tensor = ex_proportion
      and n = 2 and k' = 2]
  have sh: "shape (pis ex_out) = [2, 2]"
    by (simp add: ex_out_def)
  have m: "vals (mean0 (pis ex_out)) = [3 / 10, 7 / 10]" and ms: "shape (mean0 (pis ex_out)) = [2]"
  proof -
    have "vals (mean0 (pis ex_out)) =
        map (\<lambda>j. (\<Sum>i<2. vals (pis ex_out) ! (i * 2 + j)) / real 2) [0..<2]"
      using inst sh by blast
    then show "vals (mean0 (pis ex_out)) = [3 / 10, 7 / 10]"
      by (simp add: ex_out_def numeral_2_eq_2)
    show "shape (mean0 (pis ex_out)) = [2]"
      using inst sh by blast
  qed
  have d: "device (to (device (pis ex_out)) ex_proportion) = ''cuda''"
    using inst by (simp add: ex_out_def)
  have v: "vals (to (device (pis ex_out)) ex_proportion) = [1 / 2, 1 / 2]"
    and vs: "shape (to (device (pis ex_out)) ex_proportion) = [2]"
    using inst by (simp_all add: ex_proportion_def)
  have wf1: "well_formed (mean0 (pis ex_out))"
    "well_formed (to (device (pis ex_out)) ex_proportion)"
    by (simp_all add: well_formed_def m ms v vs)
  have f: "mse_loss (mean0 (pis ex_out)) (to (device (pis ex_out)) ex_proportion) = Inr (1 / 25)"
    using composite_loss_formula [where a = "mean0 (pis ex_out)"
        and b = "to (device (pis ex_out)) ex_proportion"] m v ms vs wf1
    by (simp add: numeral_2_eq_2 power2_eq_square)
  have wf2: "shape (reconstructed ex_out) = shape ex_data" "well_formed (reconstructed ex_out)"
    "well_formed ex_data"
    by (simp_all add: ex_out_def ex_data_def well_formed_def)
  have r: "mse_loss (reconstructed ex_out) ex_data = Inr (1 / 2)"
    using composite_loss_formula [where a = "reconstructed ex_out" and b = ex_data] wf2
    by (simp add: ex_out_def ex_data_def eval_nat_numeral)
  have kl: "loss_kl (mus ex_out) (logvars ex_out) = Inr 1"
    using loss_kl_same_shape [of ex_logvar ex_mu]
    by (simp add: ex_out_def ex_mu_def ex_logvar_def well_formed_def numeral_2_eq_2)
  have z: "zinb_loss lgamma_halves ex_data (reconstructed ex_out) ex_pi ex_r eps_default
       = Inr ex_zinb"
    by (simp add: ex_zinb_def zinb_loss_def broadcast_shapes3_def broadcast_shapes_def
        ex_data_def ex_r_def ex_pi_def Let_def)
  have klw: "loss_kl_weighted 1 1 = 1"
    by (simp add: loss_kl_weighted_def)
  have total: "batch_loss lgamma_halves ex_proportion 1 ex_pi ex_r ex_data ex_out
       = Inr (1 / 2 * 5 + ex_zinb + 1 / 25 * 10 + 1)"
    using composite_loss_formula [where out = ex_out and proportion_tensor = ex_proportion
        and lg = lgamma_halves and kl_weight = 1 and pez = ex_pi and od = ex_r and data = ex_data
        and r = "1 / 2" and z = ex_zinb and f = "1 / 25" and k = 1]
      f r kl z klw by simp
  show ?thesis
    using sh m d ms vs wf1 f wf2 r kl z total by simp
qed

section \<open>ZINB loss: zero counts and permutations\<close>















section \<open>Entry assertions\<close>

text \<open>
  C10. When \<^verbatim>\<open>base_dir\<close> is \<^verbatim>\<open>None\<close>, or neither a \<^verbatim>\<open>str\<close> nor a \<^verbatim>\<open>Path\<close>, the call raises
  \<open>AssertionError\<close> in the state it was given: no call on the model, no batch. When
  \<^verbatim>\<open>base_dir\<close> is a \<^verbatim>\<open>str\<close> or a \<^verbatim>\<open>Path\<close>, both assertions pass: the call is the batch loop
  from the entry state followed by the code after the loop, its first two calls are
  \<^verbatim>\<open>model.train()\<close> and \<^verbatim>\<open>model.to(device)\<close>, and with a batch to process the next two are
  \<^verbatim>\<open>optimizer.zero_grad()\<close> and the forward pass of the first batch.
\<close>

theorem base_dir_assertions:
  "(base_dir = PyNone \<or> \<not> (is_PyStr base_dir \<or> is_PyPath base_dir) \<longrightarrow>
      train_GMVAE env st epoch dataloader proportion_tensor kl_weight mapping_dict color_map
        max_epochs dev base_dir plot_umap = Inl (AssertionError, st))
   \<and> (is_PyStr base_dir \<or> is_PyPath base_dir \<longrightarrow>
        train_GMVAE env st epoch dataloader proportion_tensor kl_weight mapping_dict color_map
          max_epochs dev base_dir plot_umap =
          (case batches_loop env proportion_tensor kl_weight dev (entry_state dev st) 0 None
                  dataloader of
             Inl e \<Rightarrow> Inl e
           | Inr (st3, total_loss, lv) \<Rightarrow>
               after_loop env epoch mapping_dict color_map max_epochs base_dir plot_umap
                 st3 total_loss lv)
        \<and> take 2 (new_events st (train_GMVAE env st epoch dataloader proportion_tensor kl_weight
             mapping_dict color_map max_epochs dev base_dir plot_umap)) = [SetTrain, ModelTo dev]
        \<and> (dataloader \<noteq> [] \<longrightarrow>
             take 4 (new_events st (train_GMVAE env st epoch dataloader proportion_tensor kl_weight
               mapping_dict color_map max_epochs dev base_dir plot_umap))
             = [SetTrain, ModelTo dev, ZeroGrad, Forward True]))"
proof -
  let ?R = "train_GMVAE env st epoch dataloader proportion_tensor kl_weight
       mapping_dict color_map max_epochs dev base_dir plot_umap"
  obtain evs where e: "trace (final_state ?R) = trace st @ evs"
    "base_dir = PyNone \<or> \<not> (is_PyStr base_dir \<or> is_PyPath base_dir)
         \<or> (\<exists>evs'. evs = [SetTrain, ModelTo dev] @ evs'
               \<and> (dataloader = [] \<or> (\<exists>evs''. evs' = [ZeroGrad, Forward True] @ evs'')))"
    using train_GMVAE_trace [of env st epoch dataloader proportion_tensor kl_weight
       mapping_dict color_map max_epochs dev base_dir plot_umap] by blast
  have ne: "new_events st ?R = evs"
    using e(1) by (simp add: new_events_def)
  have ok: "is_PyStr base_dir \<or> is_PyPath base_dir \<Longrightarrow> base_dir \<noteq> PyNone"
    by auto
  show ?thesis
    using e(2) ok unfolding ne by (auto simp: train_GMVAE_unfold)
qed

text \<open>
  With \<^verbatim>\<open>None\<close> and with a value that is neither \<^verbatim>\<open>str\<close> nor \<^verbatim>\<open>Path\<close> the call raises in the
  state it was given; with a \<^verbatim>\<open>Path\<close> and with a \<^verbatim>\<open>str\<close> it reaches the forward pass of the
  first batch.
\<close>

theorem base_dir_assertions_witness:
  "train_GMVAE ex_env ex_state 0 [ex_batch] ex_proportion 1 [] [] 50 ''cuda'' PyNone False
     = Inl (AssertionError, ex_state)
   \<and> train_GMVAE ex_env ex_state 0 [ex_batch] ex_proportion 1 [] [] 50 ''cuda'' PyOther False
     = Inl (AssertionError, ex_state)
   \<and> is_PyPath (PyPath ''out'')
   \<and> take 4 (new_events ex_state
        (train_GMVAE ex_env ex_state 0 [ex_batch] ex_proportion 1 [] [] 50 ''cuda'' (PyPath ''out'')
           False))
      = [SetTrain, ModelTo ''cuda'', ZeroGrad, Forward True]
   \<and> is_PyStr (PyStr ''out'')
   \<and> take 4 (new_events ex_state
        (train_GMVAE ex_env ex_state 0 [ex_batch] ex_proportion 1 [] [] 50 ''cuda'' (PyStr ''out'')
           False))
      = [SetTrain, ModelTo ''cuda'', ZeroGrad, Forward True]"
proof -
  note inst = base_dir_assertions [where env = ex_env and st = ex_state
      and epoch = 0 and dataloader = "[ex_batch]" and proportion_tensor = ex_proportion
      and kl_weight = 1 and mapping_dict = "[]" and color_map = "[]" and max_epochs = 50
      and dev = "''cuda''" and plot_umap = False]
  have none: "train_GMVAE ex_env ex_state 0 [ex_batch] ex_proportion 1 [] [] 50 ''cuda'' PyNone False
     = Inl (AssertionError, ex_state)"
    using inst [where base_dir = PyNone] by blast
  have "\<not> (is_PyStr PyOther \<or> is_PyPath PyOther)"
    by simp
  then have other: "train_GMVAE ex_env ex_state 0 [ex_batch] ex_proportion 1 [] [] 50 ''cuda'' PyOther
      False = Inl (AssertionError, ex_state)"
    using inst [where base_dir = PyOther] by blast
  have p: "is_PyPath (PyPath ''out'')" and s: "is_PyStr (PyStr ''out'')"
    by simp_all
  have ne: "[ex_batch] \<noteq> []"
    by simp
  have path: "take 4 (new_events ex_state
        (train_GMVAE ex_env ex_state 0 [ex_batch] ex_proportion 1 [] [] 50 ''cuda'' (PyPath ''out'')
           False))
      = [SetTrain, ModelTo ''cuda'', ZeroGrad, Forward True]"
    using inst [where base_dir = "PyPath ''out''"] p ne by blast
  have str: "take 4 (new_events ex_state
        (train_GMVAE ex_env ex_state 0 [ex_batch] ex_proportion 1 [] [] 50 ''cuda'' (PyStr ''out'')
           False))
      = [SetTrain, ModelTo ''cuda'', ZeroGrad, Forward True]"
    using inst [where base_dir = "PyStr ''out''"] s ne by blast
  show ?thesis
    using none other p s path str by blast
qed

section \<open>Shape assertion\<close>

text \<open>
  C6. When the reconstruction of a batch has another shape than the batch, the loop body
  raises \<open>AssertionError\<close> right after the forward pass: the trace ends with the forward pass,
  no backward pass or optimizer step follows, the parameters are unchanged, and the loop and
  the whole call stop there with that error, whatever batches remain. When the shapes are
  equal the body raises no \<open>AssertionError\<close>: it goes on to the loss, and when the loss has a
  value it returns that value and the state after the optimizer step.
\<close>

theorem shape_mismatch_aborts:
  "(shape (reconstructed (forward env (params st) (training st) (to dev (fst b)) (to dev (snd b))))
      \<noteq> shape (fst b) \<longrightarrow>
      train_batch env proportion_tensor kl_weight dev st b =
        Inl (AssertionError, st\<lparr>trace := trace st @ [ZeroGrad, Forward (training st)]\<rparr>)
      \<and> batches_loop env proportion_tensor kl_weight dev st tot lv (b # bs) =
        Inl (AssertionError, st\<lparr>trace := trace st @ [ZeroGrad, Forward (training st)]\<rparr>))
   \<and> (shape (reconstructed (forward env (params st) (training st) (to dev (fst b)) (to dev (snd b))))
      = shape (fst b) \<longrightarrow>
      (\<forall>s. train_batch env proportion_tensor kl_weight dev st b \<noteq> Inl (AssertionError, s))
      \<and> train_batch env proportion_tensor kl_weight dev st b =
        (case batch_loss (lgamma env) proportion_tensor kl_weight
                (prob_extra_zero env (params st)) (over_disp env (params st)) (to dev (fst b))
                (forward env (params st) (training st) (to dev (fst b)) (to dev (snd b))) of
           Inl e \<Rightarrow> Inl (e, st\<lparr>trace := trace st @ [ZeroGrad, Forward (training st)]\<rparr>)
         | Inr l \<Rightarrow>
             Inr (st\<lparr>params := optimize env (params st) (to dev (fst b)) (to dev (snd b))
                         proportion_tensor kl_weight,
                     trace := trace st @ [ZeroGrad, Forward (training st), Backward l, OptStep]\<rparr>,
                  l,
                  forward env (params st) (training st) (to dev (fst b)) (to dev (snd b)),
                  to dev (snd b))))
   \<and> ((is_PyStr base_dir \<or> is_PyPath base_dir)
       \<and> batches_loop env proportion_tensor kl_weight dev (entry_state dev st0) 0 None pre
           = Inr (st, tot, lv)
       \<and> shape (reconstructed (forward env (params st) (training st) (to dev (fst b)) (to dev (snd b))))
           \<noteq> shape (fst b) \<longrightarrow>
       train_GMVAE env st0 epoch (pre @ b # bs) proportion_tensor kl_weight mapping_dict color_map
          max_epochs dev base_dir plot_umap =
        Inl (AssertionError, st\<lparr>trace := trace st @ [ZeroGrad, Forward (training st)]\<rparr>))"
proof -
  have ok: "is_PyStr base_dir \<or> is_PyPath base_dir \<Longrightarrow> base_dir \<noteq> PyNone"
    by auto
  have no_assert: "batch_loss lg proportion_tensor kl_weight pez od data out \<noteq> Inl AssertionError"
    for lg pez od data out
    using batch_loss_error [of lg proportion_tensor kl_weight pez od data out AssertionError]
    by auto
  show ?thesis
    using ok no_assert
    by (auto simp: train_batch_unfold Let_def train_GMVAE_unfold batches_loop_append
        dest: batch_loss_error split: sum.splits)
qed

text \<open>
  A reconstruction of shape \<open>(32, 100)\<close> for an input of shape \<open>(32, 99)\<close>: the batch, the
  loop and the call raise after the forward pass, and the second batch is never processed.
  With the model that reconstructs its input, the body runs to the optimizer step; with
  three target proportions for its two mixture columns it raises \<open>RuntimeError\<close> instead, after
  the forward pass as well.
\<close>

theorem shape_mismatch_aborts_witness:
  "shape (reconstructed (forward ex_env_wide (params ex_state) (training ex_state)
       (to ''cuda'' (fst ex_batch_99)) (to ''cuda'' (snd ex_batch_99)))) = [32, 100]
   \<and> shape (fst ex_batch_99) = [32, 99]
   \<and> train_batch ex_env_wide ex_proportion 1 ''cuda'' ex_state ex_batch_99
      = Inl (AssertionError, ex_state\<lparr>trace := [ZeroGrad, Forward False]\<rparr>)
   \<and> batches_loop ex_env_wide ex_proportion 1 ''cuda'' ex_state 0 None [ex_batch_99, ex_batch]
      = Inl (AssertionError, ex_state\<lparr>trace := [ZeroGrad, Forward False]\<rparr>)
   \<and> train_GMVAE ex_env_wide ex_state 0 [ex_batch_99, ex_batch] ex_proportion 1 [] [] 50 ''cuda''
        (PyStr ''out'') False
      = Inl (AssertionError,
          ex_state\<lparr>training := True,
                    trace := [SetTrain, ModelTo ''cuda'', ZeroGrad, Forward True]\<rparr>)
   \<and> shape (reconstructed (forward ex_env (params ex_state) (training ex_state)
       (to ''cuda'' (fst ex_batch)) (to ''cuda'' (snd ex_batch)))) = shape (fst ex_batch)
   \<and> train_batch ex_env ex_proportion 1 ''cuda'' ex_state ex_batch
      = Inr (ex_state\<lparr>params := 1,
                       trace := [ZeroGrad, Forward False, Backward ex_loss, OptStep]\<rparr>,
             ex_loss, ex_out\<lparr>reconstructed := ex_data\<rparr>, to ''cuda'' ex_labels)
   \<and> train_batch ex_env ex_proportion3 1 ''cuda'' ex_state ex_batch
      = Inl (RuntimeError, ex_state\<lparr>trace := [ZeroGrad, Forward False]\<rparr>)"
proof -
  have wide: "shape (reconstructed (forward ex_env_wide (params st) (training st)
       (to ''cuda'' (fst ex_batch_99)) (to ''cuda'' (snd ex_batch_99)))) \<noteq> shape (fst ex_batch_99)"
    for st :: "nat state"
    by (simp add: ex_env_wide_def ex_env_def ex_batch_99_def)
  have same: "shape (reconstructed (forward ex_env (params ex_state) (training ex_state)
       (to ''cuda'' (fst ex_batch)) (to ''cuda'' (snd ex_batch)))) = shape (fst ex_batch)"
    by (simp add: ex_env_def shape_to)
  have entry: "batches_loop ex_env_wide ex_proportion 1 ''cuda'' (entry_state ''cuda'' ex_state) 0 None []
      = Inr (entry_state ''cuda'' ex_state, 0, None)"
    by simp
  note body = shape_mismatch_aborts [where env = ex_env_wide and st = ex_state and dev = "''cuda''"
      and b = ex_batch_99 and proportion_tensor = ex_proportion and kl_weight = 1 and tot = 0
      and lv = None and bs = "[ex_batch]"]
  note whole = shape_mismatch_aborts [where env = ex_env_wide and st = "entry_state ''cuda'' ex_state"
      and st0 = ex_state and dev = "''cuda''" and pre = "[]"
      and b = ex_batch_99 and proportion_tensor = ex_proportion and kl_weight = 1 and tot = 0
      and lv = None and bs = "[ex_batch]" and base_dir = "PyStr ''out''" and epoch = 0
      and mapping_dict = "[]" and color_map = "[]" and max_epochs = 50 and plot_umap = False]
  have a: "train_batch ex_env_wide ex_proportion 1 ''cuda'' ex_state ex_batch_99
      = Inl (AssertionError, ex_state\<lparr>trace := [ZeroGrad, Forward False]\<rparr>)"
    "batches_loop ex_env_wide ex_proportion 1 ''cuda'' ex_state 0 None [ex_batch_99, ex_batch]
      = Inl (AssertionError, ex_state\<lparr>trace := [ZeroGrad, Forward False]\<rparr>)"
    using body wide [of ex_state] by (simp_all add: ex_state_def)
  have b: "train_GMVAE ex_env_wide ex_state 0 [ex_batch_99, ex_batch] ex_proportion 1 [] [] 50 ''cuda''
        (PyStr ''out'') False
      = Inl (AssertionError,
          ex_state\<lparr>training := True,
                    trace := [SetTrain, ModelTo ''cuda'', ZeroGrad, Forward True]\<rparr>)"
    using whole wide [of "entry_state ''cuda'' ex_state"] entry
    by (simp add: entry_state_def ex_state_def)
  have good: "train_batch ex_env p 1 ''cuda'' ex_state ex_batch =
        (case batch_loss (lgamma ex_env) p 1
                (prob_extra_zero ex_env (params ex_state)) (over_disp ex_env (params ex_state))
                (to ''cuda'' (fst ex_batch))
                (forward ex_env (params ex_state) (training ex_state) (to ''cuda'' (fst ex_batch))
                   (to ''cuda'' (snd ex_batch))) of
           Inl e \<Rightarrow> Inl (e, ex_state\<lparr>trace := trace ex_state @ [ZeroGrad, Forward (training ex_state)]\<rparr>)
         | Inr l \<Rightarrow>
             Inr (ex_state\<lparr>params := optimize ex_env (params ex_state) (to ''cuda'' (fst ex_batch))
                         (to ''cuda'' (snd ex_batch)) p 1,
                     trace := trace ex_state
                       @ [ZeroGrad, Forward (training ex_state), Backward l, OptStep]\<rparr>,
                  l,
                  forward ex_env (params ex_state) (training ex_state) (to ''cuda'' (fst ex_batch))
                    (to ''cuda'' (snd ex_batch)),
                  to ''cuda'' (snd ex_batch)))" for p
    using shape_mismatch_aborts [where env = ex_env and st = ex_state and dev = "''cuda''"
      and b = ex_batch and proportion_tensor = p and kl_weight = 1] same
    by blast
  have l1: "batch_loss (lgamma ex_env) ex_proportion 1
                (prob_extra_zero ex_env (params ex_state)) (over_disp ex_env (params ex_state))
                (to ''cuda'' (fst ex_batch))
                (forward ex_env (params ex_state) (training ex_state) (to ''cuda'' (fst ex_batch))
                   (to ''cuda'' (snd ex_batch))) = Inr ex_loss"
    by (simp add: ex_env_def ex_batch_def to_ex_data ex_batch_loss_1)
  have l3: "batch_loss (lgamma ex_env) ex_proportion3 1
                (prob_extra_zero ex_env (params ex_state)) (over_disp ex_env (params ex_state))
                (to ''cuda'' (fst ex_batch))
                (forward ex_env (params ex_state) (training ex_state) (to ''cuda'' (fst ex_batch))
                   (to ''cuda'' (snd ex_batch))) = Inl RuntimeError"
    by (simp add: ex_env_def ex_batch_def to_ex_data batch_loss_def fraction_loss_def mse_loss_def
        broadcast_shapes_def mean0_def ex_out_def ex_proportion3_def to_def Let_def)
  have c: "train_batch ex_env ex_proportion 1 ''cuda'' ex_state ex_batch
      = Inr (ex_state\<lparr>params := 1,
                       trace := [ZeroGrad, Forward False, Backward ex_loss, OptStep]\<rparr>,
             ex_loss, ex_out\<lparr>reconstructed := ex_data\<rparr>, to ''cuda'' ex_labels)"
    unfolding good [of ex_proportion] l1
    by (simp add: ex_env_def ex_state_def ex_batch_def to_ex_data)
  have d: "train_batch ex_env ex_proportion3 1 ''cuda'' ex_state ex_batch
      = Inl (RuntimeError, ex_state\<lparr>trace := [ZeroGrad, Forward False]\<rparr>)"
    unfolding good [of ex_proportion3] l3
    by (simp add: ex_state_def)
  show ?thesis
    using a b c d same by (simp add: ex_env_wide_def ex_env_def ex_batch_99_def)
qed

section \<open>Returned total\<close>

text \<open>
  Whenever \<^verbatim>\<open>train_GMVAE\<close> returns, the value is the plain sum, starting from \<open>0\<close>, of the
  losses of all batches of the epoch (\<open>train_GMVAE_value\<close>); two batches of loss \<open>ex_loss\<close>
  give \<open>ex_loss + ex_loss\<close>, not their mean (\<open>ex_env_epoch_returns\<close>).
\<close>

text \<open>
  C7. For a data loader without batches the sum over all batches is the sum of no loss, \<open>0\<close>,
  the value \<^verbatim>\<open>total_loss\<close> has at line 28 and still has after the loop. The call does not
  return it: line 80, after the loop, reads \<^verbatim>\<open>fraction_loss\<close>, which only the loop body binds,
  and raises \<open>UnboundLocalError\<close>, with both entry assertions passed, the model set to training
  mode and moved to the device, and in an epoch where no checkpoint is due.
\<close>

theorem empty_loader_raises_unbound_local:
  "sum_list (epoch_losses ex_env ex_proportion 1 ''cuda'' (params ex_state) []) = 0
   \<and> checkpoint_branch 0 50 = NoSave
   \<and> train_GMVAE ex_env ex_state 0 [] ex_proportion 1 [] [] 50 ''cuda'' (PyStr ''out'') False
       = Inl (UnboundLocalError,
           ex_state\<lparr>training := True, trace := [SetTrain, ModelTo ''cuda'']\<rparr>)"
  by (simp add: train_GMVAE_empty_loader entry_state_def ex_state_def checkpoint_branch_def)

section \<open>Training mode\<close>

text \<open>
  C9. Whatever state a call starts from, in particular with the training flag off as a
  checkpoint save leaves it, every forward pass the call makes sees the flag on; a call that
  returns has made one such forward pass per batch. The calls of a run extend the trace of
  the state it started from.
\<close>

theorem forward_passes_in_training_mode:
  "trace (final_state (train_GMVAE env st epoch dataloader proportion_tensor kl_weight
       mapping_dict color_map max_epochs dev base_dir plot_umap))
     = trace st @ new_events st (train_GMVAE env st epoch dataloader proportion_tensor kl_weight
         mapping_dict color_map max_epochs dev base_dir plot_umap)
   \<and> (\<forall>m\<in>set (forward_modes (new_events st (train_GMVAE env st epoch dataloader
         proportion_tensor kl_weight mapping_dict color_map max_epochs dev base_dir plot_umap))). m)
   \<and> (train_GMVAE env st epoch dataloader proportion_tensor kl_weight
         mapping_dict color_map max_epochs dev base_dir plot_umap = Inr (st', v) \<longrightarrow>
       forward_modes (new_events st (train_GMVAE env st epoch dataloader
         proportion_tensor kl_weight mapping_dict color_map max_epochs dev base_dir plot_umap))
         = replicate (length dataloader) True)"
proof -
  let ?R = "train_GMVAE env st epoch dataloader proportion_tensor kl_weight
       mapping_dict color_map max_epochs dev base_dir plot_umap"
  obtain evs where e: "trace (final_state ?R) = trace st @ evs"
    "set (forward_modes evs) \<subseteq> {True}"
    "isl ?R \<or> forward_modes evs = replicate (length dataloader) True"
    using train_GMVAE_trace [of env st epoch dataloader proportion_tensor kl_weight
       mapping_dict color_map max_epochs dev base_dir plot_umap] by blast
  have "new_events st ?R = evs"
    using e(1) by (simp add: new_events_def)
  then show ?thesis
    using e by auto
qed

text \<open>
  Epoch 9 of 50 saves a checkpoint and leaves the model in evaluation mode; the call for
  epoch 10, started from that state, returns and runs both of its forward passes in training
  mode.
\<close>

theorem forward_passes_in_training_mode_witness:
  "training (final_state
       (train_GMVAE ex_env ex_state 9 [ex_batch] ex_proportion 1 [] [] 50 ''cuda'' (PyStr ''out'')
          False)) = False
   \<and> forward_modes (new_events
        (final_state
          (train_GMVAE ex_env ex_state 9 [ex_batch] ex_proportion 1 [] [] 50 ''cuda'' (PyStr ''out'')
             False))
        (train_GMVAE ex_env
          (final_state
            (train_GMVAE ex_env ex_state 9 [ex_batch] ex_proportion 1 [] [] 50 ''cuda''
               (PyStr ''out'') False))
          10 [ex_batch, ex_batch] ex_proportion 1 [] [] 50 ''cuda'' (PyStr ''out'') False))
      = [True, True]"
proof -
  let ?st1 = "final_state
       (train_GMVAE ex_env ex_state 9 [ex_batch] ex_proportion 1 [] [] 50 ''cuda'' (PyStr ''out'')
          False)"
  have loop: "batches_loop ex_env ex_proportion 1 ''cuda'' st 0 None [ex_batch]
      = Inr (st\<lparr>params := Suc (params st),
                 trace := trace st @ [ZeroGrad, Forward (training st), Backward ex_loss, OptStep]\<rparr>,
             ex_loss, Some (ex_out\<lparr>reconstructed := ex_data\<rparr>, to ''cuda'' ex_labels))"
    for st :: "nat state"
    by (simp add: ex_env_train_batch)
  have left_in_eval: "training ?st1 = False"
    unfolding train_GMVAE_unfold loop
    by (simp add: Let_def ex_env_def after_loop_def checkpoint_branch_def save_periodic_def
        save_def final_state_def entry_state_def)
  obtain st' where ret: "train_GMVAE ex_env ?st1 10 [ex_batch, ex_batch] ex_proportion 1 [] [] 50
      ''cuda'' (PyStr ''out'') False = Inr (st', ex_loss + ex_loss)"
    using ex_env_epoch_returns [of ?st1] by blast
  have "forward_modes (new_events ?st1
        (train_GMVAE ex_env ?st1 10 [ex_batch, ex_batch] ex_proportion 1 [] [] 50 ''cuda''
           (PyStr ''out'') False))
      = replicate (length [ex_batch, ex_batch]) True"
    using forward_passes_in_training_mode [where env = ex_env and st = ?st1 and epoch = 10
        and dataloader = "[ex_batch, ex_batch]" and proportion_tensor = ex_proportion
        and kl_weight = 1 and mapping_dict = "[]" and color_map = "[]" and max_epochs = 50
        and dev = "''cuda''" and base_dir = "PyStr ''out''" and plot_umap = False] ret
    by blast
  then show ?thesis
    using left_in_eval by (simp add: numeral_2_eq_2)
qed

end
